theory Spec2Isabelle
  imports Complex_Main
begin

section \<open>The frame scanner of scripts/vibecut\_frame\_scanner.py\<close>

text \<open>
  The scanner reads a video through OpenCV, samples frames by a fixed stride, folds
  per-frame scores into running totals and prints one JSON object.

  Conventions of the embedding.
  \<^item> Python floats are exact reals: sums, quotients and comparisons are the mathematical
    ones, and there is neither nan nor infinity. \<open>round(x, n)\<close> is the rounding to \<open>n\<close>
    decimals with ties to the even neighbour, which is what CPython computes from the
    exact value of a double and what the JSON output shows. Rounding to doubles is
    modelled apart (\<open>binary64\<close>, for the timestamps and the de-duplication test), where
    the spacing of the printed peaks depends on it.
  \<^item> OpenCV and numpy are the collaborators: a capture is a record of the property values
    it reports and of what a seek followed by a read returns; a decoded frame carries its
    grayscale pixels, the Canny edge map and the rectangles of the face detector.
  \<^item> numpy's mean of an empty slice is nan; \<open>region_mean\<close> is \<open>0\<close> there. No slice of a
    frame with at least two rows and two columns is empty.
  \<^item> The command line is parsed before \<open>main\<close> starts: \<open>main\<close> takes the parsed
    sampling ratio, and the environment says whether the input path exists, whether
    cv2 and numpy import, and what the capture reports.
\<close>

subsection \<open>Python numerics\<close>

definition clamp :: "real \<Rightarrow> real \<Rightarrow> real \<Rightarrow> real" where
  "clamp value low high = max low (min high value)"

text \<open>\<open>int(x)\<close> of a float truncates towards zero.\<close>

definition py_int :: "real \<Rightarrow> int" where
  "py_int x = (if 0 \<le> x then \<lfloor>x\<rfloor> else \<lceil>x\<rceil>)"

text \<open>\<open>x or d\<close> on floats: the default replaces a falsy \<open>x\<close>, and the only falsy float is zero.\<close>

definition py_or :: "real \<Rightarrow> real \<Rightarrow> real" where
  "py_or x d = (if x = 0 then d else x)"

definition round_half_even :: "real \<Rightarrow> int" where
  "round_half_even x =
     (let f = \<lfloor>x\<rfloor>; d = x - of_int f
      in if d < 1 / 2 then f
         else if 1 / 2 < d then f + 1
         else if even f then f else f + 1)"

definition py_round :: "real \<Rightarrow> nat \<Rightarrow> real" where
  "py_round x ndigits = of_int (round_half_even (x * 10 ^ ndigits)) / 10 ^ ndigits"

subsection \<open>The result\<close>

record ScanResult =
  sampledFrames :: int
  sampleStride :: int
  portraitSignal :: real
  landscapeSignal :: real
  centeredFaceVerticalSignal :: real
  horizontalMotionSignal :: real
  highMotionShortClipSignal :: real
  motionPeaks :: "real list"

definition fallback_payload :: ScanResult where
  "fallback_payload =
     \<lparr> sampledFrames = 0,
       sampleStride = 0,
       portraitSignal = 0.5,
       landscapeSignal = 0.5,
       centeredFaceVerticalSignal = 0.0,
       horizontalMotionSignal = 0.0,
       highMotionShortClipSignal = 0.0,
       motionPeaks = [] \<rparr>"

subsection \<open>Frames and the capture\<close>

text \<open>An image is a list of rows of 8-bit pixel values.\<close>

type_synonym image = "nat list list"

record frame =
  gray :: image
  edges :: image
  faces :: "(int \<times> int \<times> int \<times> int) list"

record capture =
  isOpened :: bool
  CAP_PROP_FRAME_COUNT :: real
  CAP_PROP_FPS :: real
  CAP_PROP_FRAME_WIDTH :: real
  CAP_PROP_FRAME_HEIGHT :: real
  read_at :: "int \<Rightarrow> frame option"

record environment =
  input_exists :: bool
  cv2_imports :: bool
  VideoCapture :: capture

text \<open>\<open>gray.shape\<close>: the number of rows, then the number of columns.\<close>

definition shape :: "image \<Rightarrow> int \<times> int" where
  "shape img = (int (length img), (case img of [] \<Rightarrow> 0 | r # _ \<Rightarrow> int (length r)))"

text \<open>\<open>xs[a:b]\<close> for indices that are not negative.\<close>

definition slice :: "int \<Rightarrow> int \<Rightarrow> 'a list \<Rightarrow> 'a list" where
  "slice a b xs = take (nat b - nat a) (drop (nat a) xs)"

definition region_mean :: "image \<Rightarrow> real" where
  "region_mean img = real (sum_list (concat img)) / real (length (concat img))"

definition absdiff :: "image \<Rightarrow> image \<Rightarrow> image" where
  "absdiff a b = map2 (map2 (\<lambda>p q. if p \<le> q then q - p else p - q)) a b"

subsection \<open>Per-frame scores\<close>

definition left_density :: "image \<Rightarrow> int \<Rightarrow> real" where
  "left_density e x_mid = region_mean (map (take (nat x_mid)) e) / 255.0"

definition right_density :: "image \<Rightarrow> int \<Rightarrow> real" where
  "right_density e x_mid = region_mean (map (drop (nat x_mid)) e) / 255.0"

definition top_density :: "image \<Rightarrow> int \<Rightarrow> real" where
  "top_density e y_mid = region_mean (take (nat y_mid) e) / 255.0"

definition bottom_density :: "image \<Rightarrow> int \<Rightarrow> real" where
  "bottom_density e y_mid = region_mean (drop (nat y_mid) e) / 255.0"

definition center_density :: "image \<Rightarrow> int \<Rightarrow> int \<Rightarrow> real" where
  "center_density e h w =
     (let center_x1 = py_int (real_of_int w * 0.25);
          center_x2 = py_int (real_of_int w * 0.75);
          center_y1 = py_int (real_of_int h * 0.18);
          center_y2 = py_int (real_of_int h * 0.85)
      in region_mean (map (slice center_x1 center_x2) (slice center_y1 center_y2 e)) / 255.0)"

definition face_hit :: "int \<Rightarrow> int \<Rightarrow> int \<times> int \<times> int \<times> int \<Rightarrow> bool" where
  "face_hit h w = (\<lambda>(x, y, fw, fh).
     let cx = real_of_int x + real_of_int fw / 2.0;
         cy = real_of_int y + real_of_int fh / 2.0
     in (0.28 * real_of_int w \<le> cx \<and> cx \<le> 0.72 * real_of_int w)
        \<and> (0.18 * real_of_int h \<le> cy \<and> cy \<le> 0.8 * real_of_int h))"

definition centered_face :: "int \<Rightarrow> int \<Rightarrow> (int \<times> int \<times> int \<times> int) list \<Rightarrow> real" where
  "centered_face h w fs =
     (if 0 < length fs
      then let hits = length (filter (face_hit h w) fs)
           in clamp (real hits / real (max 1 (length fs))) 0.0 1.0
      else 0.0)"

definition portrait_score :: "frame \<Rightarrow> real" where
  "portrait_score fr =
     (let (h, w) = shape (gray fr);
          y_mid = h div 2;
          portrait_bias = (if w \<le> h then 1.0 else 0.0)
      in 0.38 * portrait_bias
         + 0.26 * center_density (edges fr) h w
         + 0.22 * centered_face h w (faces fr)
         + 0.14 * (top_density (edges fr) y_mid + bottom_density (edges fr) y_mid) * 0.5)"

definition landscape_score :: "frame \<Rightarrow> real" where
  "landscape_score fr =
     (let (h, w) = shape (gray fr);
          x_mid = w div 2;
          landscape_bias = (if h < w then 1.0 else 0.0)
      in 0.42 * landscape_bias
         + 0.27 * ((left_density (edges fr) x_mid + right_density (edges fr) x_mid) * 0.5)
         + 0.18 * \<bar>left_density (edges fr) x_mid - right_density (edges fr) x_mid\<bar>
         + 0.13 * (1.0 - centered_face h w (faces fr)))"

text \<open>
  The motion of a frame against the retained grayscale buffer \<open>prev_gray\<close>: the mean
  absolute difference over the whole frame, and over the band of columns from
  \<open>int(w * 0.2)\<close> to \<open>int(w * 0.8)\<close>.
\<close>

definition frame_motion :: "image \<Rightarrow> image \<Rightarrow> real" where
  "frame_motion p g = (let diff = absdiff p g in region_mean diff / 255.0)"

definition band_motion :: "image \<Rightarrow> image \<Rightarrow> real" where
  "band_motion p g =
     (let (h, w) = shape g;
          diff = absdiff p g;
          horizontal_band =
            map (slice (py_int (real_of_int w * 0.2)) (py_int (real_of_int w * 0.8))) diff
      in region_mean horizontal_band / 255.0)"

subsection \<open>The sampling loop\<close>

text \<open>
  The local variables of \<open>main\<close> that the loop changes. \<open>seeks\<close> is the capture's side of
  the loop: the frame indices passed to \<open>cap.set(CAP_PROP_POS_FRAMES, _)\<close>, in order.
\<close>

record scan_state =
  sampled_frames :: int
  portrait_score_total :: real
  landscape_score_total :: real
  centered_face_total :: real
  horizontal_motion_total :: real
  motion_values :: "real list"
  motion_timestamps :: "real list"
  prev_gray :: "image option"
  frame_index :: int
  seeks :: "int list"

definition initial_state :: scan_state where
  "initial_state =
     \<lparr> sampled_frames = 0,
       portrait_score_total = 0.0,
       landscape_score_total = 0.0,
       centered_face_total = 0.0,
       horizontal_motion_total = 0.0,
       motion_values = [],
       motion_timestamps = [],
       prev_gray = None,
       frame_index = 0,
       seeks = [] \<rparr>"

definition loop_body :: "capture \<Rightarrow> real \<Rightarrow> int \<Rightarrow> scan_state \<Rightarrow> scan_state" where
  "loop_body cap fps sample_stride st =
     (let st = st\<lparr>seeks := seeks st @ [frame_index st]\<rparr>
      in case read_at cap (frame_index st) of
           None \<Rightarrow> st\<lparr>frame_index := frame_index st + sample_stride\<rparr>
         | Some fr \<Rightarrow>
             let (h, w) = shape (gray fr);
                 motion_value =
                   (case prev_gray st of None \<Rightarrow> 0.0 | Some p \<Rightarrow> frame_motion p (gray fr))
             in st\<lparr> sampled_frames := sampled_frames st + 1,
                    portrait_score_total := portrait_score_total st + portrait_score fr,
                    landscape_score_total := landscape_score_total st + landscape_score fr,
                    centered_face_total := centered_face_total st + centered_face h w (faces fr),
                    horizontal_motion_total :=
                      (case prev_gray st of
                         None \<Rightarrow> horizontal_motion_total st
                       | Some p \<Rightarrow> horizontal_motion_total st + band_motion p (gray fr)),
                    motion_values := motion_values st @ [motion_value],
                    motion_timestamps :=
                      motion_timestamps st @ [real_of_int (frame_index st) / max 1.0 fps],
                    prev_gray := Some (gray fr),
                    frame_index := frame_index st + sample_stride \<rparr>)"

text \<open>
  \<open>while frame_index < total_frames\<close>. Nothing in the loop bounds the stride from below,
  so the loop as such may run forever: not returning is \<open>None\<close>.
\<close>

partial_function (option) scan_loop ::
  "capture \<Rightarrow> int \<Rightarrow> real \<Rightarrow> int \<Rightarrow> scan_state \<Rightarrow> scan_state option" where
  "scan_loop cap total_frames fps sample_stride st =
     (if frame_index st < total_frames
      then scan_loop cap total_frames fps sample_stride (loop_body cap fps sample_stride st)
      else Some st)"

subsection \<open>Motion peaks and the payload\<close>

definition np_mean :: "real list \<Rightarrow> real" where
  "np_mean xs = sum_list xs / real (length xs)"

definition np_std :: "real list \<Rightarrow> real" where
  "np_std xs = sqrt (np_mean (map (\<lambda>x. \<bar>x - np_mean xs\<bar> ^ 2) xs))"

definition motion_array :: "real list \<Rightarrow> real list" where
  "motion_array mv = (if mv \<noteq> [] then mv else [0.0])"

definition high_motion_threshold :: "real list \<Rightarrow> real" where
  "high_motion_threshold mv = np_mean (motion_array mv) + 0.75 * np_std (motion_array mv)"

definition high_motion_ratio :: "real list \<Rightarrow> real" where
  "high_motion_ratio mv =
     (let arr = motion_array mv
      in if 0 < length arr
         then real (length (filter (\<lambda>v. high_motion_threshold mv < v) arr)) / real (length arr)
         else 0.0)"

text \<open>
  The candidates, in temporal order, then sorted by falling value. Python's sort is stable
  also with \<open>reverse=True\<close>, and so is \<open>sort_key\<close> on the negated value.
\<close>

definition peak_pairs :: "real list \<Rightarrow> real list \<Rightarrow> (real \<times> real) list" where
  "peak_pairs mts mv =
     sort_key (\<lambda>item. - snd item)
       (filter (\<lambda>(ts, value). high_motion_threshold mv \<le> value) (zip mts mv))"

fun unique_peaks :: "real list \<Rightarrow> (real \<times> real) list \<Rightarrow> real list" where
  "unique_peaks acc [] = acc"
| "unique_peaks acc ((ts, score) # rest) =
     (if list_ex (\<lambda>existing. \<bar>ts - existing\<bar> < 4.5) acc
      then unique_peaks acc rest
      else if 6 \<le> length (acc @ [ts]) then acc @ [ts]
      else unique_peaks (acc @ [ts]) rest)"

definition build_payload :: "int \<Rightarrow> scan_state \<Rightarrow> ScanResult" where
  "build_payload sample_stride st =
     (if sampled_frames st \<le> 0 then fallback_payload
      else
        let portrait_signal =
              clamp (portrait_score_total st / real_of_int (sampled_frames st)) 0.0 1.0;
            landscape_signal =
              clamp (landscape_score_total st / real_of_int (sampled_frames st)) 0.0 1.0;
            centered_face_signal =
              clamp (centered_face_total st / real_of_int (sampled_frames st)) 0.0 1.0;
            horizontal_motion_signal =
              clamp (horizontal_motion_total st / real_of_int (max 1 (sampled_frames st - 1)))
                0.0 1.0;
            high_motion_short_clip_signal =
              clamp (high_motion_ratio (motion_values st) * 1.35) 0.0 1.0
        in \<lparr> sampledFrames = sampled_frames st,
             sampleStride = sample_stride,
             portraitSignal = py_round portrait_signal 4,
             landscapeSignal = py_round landscape_signal 4,
             centeredFaceVerticalSignal = py_round centered_face_signal 4,
             horizontalMotionSignal = py_round horizontal_motion_signal 4,
             highMotionShortClipSignal = py_round high_motion_short_clip_signal 4,
             motionPeaks =
               map (\<lambda>value. py_round value 2)
                 (unique_peaks [] (peak_pairs (motion_timestamps st) (motion_values st))) \<rparr>)"

subsection \<open>The sampler's parameters and main\<close>

definition effective_sample_ratio :: "real \<Rightarrow> real" where
  "effective_sample_ratio arg = clamp (py_or arg 0.1) 0.01 0.5"

definition sample_count_of :: "int \<Rightarrow> real \<Rightarrow> int" where
  "sample_count_of total_frames sample_ratio =
     max 1 (py_int (real_of_int total_frames * sample_ratio))"

definition sample_stride_of :: "int \<Rightarrow> int \<Rightarrow> int" where
  "sample_stride_of total_frames sample_count = max 1 (total_frames div sample_count)"

text \<open>
  \<open>main\<close> returns the exit status and the payload it prints; \<open>None\<close> stands for a run
  whose loop never ends.
\<close>

definition main :: "real \<Rightarrow> environment \<Rightarrow> (int \<times> ScanResult) option" where
  "main arg_sample_ratio env =
     (if \<not> input_exists env then Some (0, fallback_payload)
      else if \<not> cv2_imports env then Some (0, fallback_payload)
      else
        let cap = VideoCapture env
        in if \<not> isOpened cap then Some (0, fallback_payload)
           else
             let total_frames = py_int (py_or (CAP_PROP_FRAME_COUNT cap) 0);
                 fps = py_or (CAP_PROP_FPS cap) 30.0;
                 width = py_int (py_or (CAP_PROP_FRAME_WIDTH cap) 0);
                 height = py_int (py_or (CAP_PROP_FRAME_HEIGHT cap) 0)
             in if total_frames \<le> 0 \<or> width \<le> 0 \<or> height \<le> 0
                then Some (0, fallback_payload)
                else
                  let sample_ratio = effective_sample_ratio arg_sample_ratio;
                      sample_count = sample_count_of total_frames sample_ratio;
                      sample_stride = sample_stride_of total_frames sample_count
                  in case scan_loop cap total_frames fps sample_stride initial_state of
                       None \<Rightarrow> None
                     | Some st \<Rightarrow> Some (0, build_payload sample_stride st))"

subsection \<open>Loop invariants\<close>

text \<open>
  What the loop keeps true. The indices it seeks to are the first multiples of the stride;
  the counter, the timestamps and the motion values follow the indices that decoded.
\<close>

definition decoded :: "capture \<Rightarrow> int list \<Rightarrow> int list" where
  "decoded cap idxs = filter (\<lambda>i. read_at cap i \<noteq> None) idxs"

definition seeks_inv :: "int \<Rightarrow> scan_state \<Rightarrow> bool" where
  "seeks_inv sample_stride st =
     (\<exists>n. seeks st = map (\<lambda>k. int k * sample_stride) [0..<n]
          \<and> frame_index st = int n * sample_stride)"

definition trace_inv :: "capture \<Rightarrow> real \<Rightarrow> scan_state \<Rightarrow> bool" where
  "trace_inv cap fps st =
     (sampled_frames st = int (length (decoded cap (seeks st)))
      \<and> motion_timestamps st = map (\<lambda>i. real_of_int i / max 1 fps) (decoded cap (seeks st))
      \<and> length (motion_values st) = length (motion_timestamps st)
      \<and> (prev_gray st = None) = (sampled_frames st = 0))"

text \<open>
  For a source whose decoded frames all have the grayscale buffer \<open>g\<close>: every motion
  value so far is zero and the retained buffer, if any, is \<open>g\<close>.
\<close>

definition still_inv :: "image \<Rightarrow> scan_state \<Rightarrow> bool" where
  "still_inv g st =
     (list_all (\<lambda>v. v = 0) (motion_values st) \<and> (prev_gray st = None \<or> prev_gray st = Some g))"

subsection \<open>Example inputs\<close>

text \<open>
  Frames of two rows and two columns with one gray value, no edges and no faces; a capture
  that decodes the same frame at every index; an environment in which the input path exists
  and cv2 imports.
\<close>

definition flat_frame :: "nat \<Rightarrow> frame" where
  "flat_frame v = \<lparr> gray = [[v, v], [v, v]], edges = [[0, 0], [0, 0]], faces = [] \<rparr>"

definition uniform_capture :: "real \<Rightarrow> real \<Rightarrow> frame \<Rightarrow> capture" where
  "uniform_capture frame_count fps fr =
     \<lparr> isOpened = True,
       CAP_PROP_FRAME_COUNT = frame_count,
       CAP_PROP_FPS = fps,
       CAP_PROP_FRAME_WIDTH = 2,
       CAP_PROP_FRAME_HEIGHT = 2,
       read_at = (\<lambda>i. Some fr) \<rparr>"

definition ready :: "capture \<Rightarrow> environment" where
  "ready cap = \<lparr> input_exists = True, cv2_imports = True, VideoCapture = cap \<rparr>"

definition flash_capture :: capture where
  "flash_capture =
     \<lparr> isOpened = True,
       CAP_PROP_FRAME_COUNT = 4,
       CAP_PROP_FPS = 1 / 2,
       CAP_PROP_FRAME_WIDTH = 2,
       CAP_PROP_FRAME_HEIGHT = 2,
       read_at = (\<lambda>i. if i < 2 then Some (flat_frame 0) else Some (flat_frame 255)) \<rparr>"

definition gap_capture :: capture where
  "gap_capture =
     \<lparr> isOpened = True,
       CAP_PROP_FRAME_COUNT = 4,
       CAP_PROP_FPS = 30,
       CAP_PROP_FRAME_WIDTH = 2,
       CAP_PROP_FRAME_HEIGHT = 2,
       read_at = (\<lambda>i. if i = 0 then None else Some (flat_frame 7)) \<rparr>"

definition still_capture :: capture where
  "still_capture = uniform_capture 4 30 (flat_frame 7)"




subsection \<open>Timestamps as doubles\<close>




section \<open>Shared facts\<close>

lemma clamp_bounds: "low \<le> high \<Longrightarrow> low \<le> clamp v low high \<and> clamp v low high \<le> high"
  by (simp add: clamp_def)

lemma round_half_even_lower: "\<lfloor>x\<rfloor> \<le> round_half_even x"
  by (simp add: round_half_even_def Let_def)

lemma round_half_even_upper: "round_half_even x \<le> \<lceil>x\<rceil>"
proof -
  have "x \<noteq> of_int \<lfloor>x\<rfloor> \<Longrightarrow> \<lfloor>x\<rfloor> + 1 \<le> \<lceil>x\<rceil>"
    by (metis ceiling_altdef order_refl of_int_floor_cancel)
  moreover have "x = of_int \<lfloor>x\<rfloor> \<Longrightarrow> round_half_even x = \<lfloor>x\<rfloor>"
    by (simp add: round_half_even_def Let_def)
  ultimately show ?thesis
    by (cases "x = of_int \<lfloor>x\<rfloor>") (auto simp: round_half_even_def Let_def)
qed

lemma py_round_unit: assumes "0 \<le> x" "x \<le> 1" shows "0 \<le> py_round x n \<and> py_round x n \<le> 1"
proof -
  let ?y = "x * 10 ^ n"
  have y0: "0 \<le> ?y" using assms by simp
  have y1: "?y \<le> 10 ^ n" using assms by (simp add: mult_left_le_one_le)
  have "0 \<le> \<lfloor>?y\<rfloor>" using y0 by simp
  then have lo: "0 \<le> round_half_even ?y" using round_half_even_lower[of ?y] by linarith
  have "\<lceil>?y\<rceil> \<le> 10 ^ n" using y1 by (simp add: ceiling_le_iff)
  then have hi: "round_half_even ?y \<le> 10 ^ n" using round_half_even_upper[of ?y] by linarith
  have "real_of_int (round_half_even ?y) \<le> 10 ^ n"
    using hi by (metis of_int_le_iff of_int_numeral of_int_power)
  then show ?thesis using lo by (simp add: py_round_def)
qed

lemma loop_body_frame_index:
  "frame_index (loop_body cap fps sample_stride st) = frame_index st + sample_stride"
  by (simp add: loop_body_def Let_def split: option.splits prod.splits)

lemma scan_loop_rule:
  assumes stride: "1 \<le> sample_stride"
    and init: "P st"
    and step: "\<And>s. P s \<Longrightarrow> frame_index s < total_frames \<Longrightarrow> P (loop_body cap fps sample_stride s)"
  shows "\<exists>st'. scan_loop cap total_frames fps sample_stride st = Some st'
           \<and> P st' \<and> total_frames \<le> frame_index st'"
  using init
proof (induction "nat (total_frames - frame_index st)" arbitrary: st rule: less_induct)
  case less
  show ?case
  proof (cases "frame_index st < total_frames")
    case True
    let ?s = "loop_body cap fps sample_stride st"
    have "nat (total_frames - frame_index ?s) < nat (total_frames - frame_index st)"
      using True stride by (simp add: loop_body_frame_index)
    from less.hyps[OF this step[OF less.prems True]]
    show ?thesis using True by (subst scan_loop.simps) simp
  next
    case False
    then show ?thesis using less.prems by (subst scan_loop.simps) simp
  qed
qed

lemma sample_stride_of_pos: "1 \<le> sample_stride_of total_frames sample_count"
  by (simp add: sample_stride_of_def)

lemma scan_loop_returns:
  "1 \<le> sample_stride \<Longrightarrow> \<exists>st'. scan_loop cap total_frames fps sample_stride st = Some st'"
  using scan_loop_rule[of sample_stride "\<lambda>_. True" st total_frames cap fps] by blast

lemma main_cases:
  "main ratio env = Some (0, fallback_payload)
   \<or> (\<exists>stride st. main ratio env = Some (0, build_payload stride st))"
proof -
  let ?cap = "VideoCapture env"
  let ?total = "py_int (py_or (CAP_PROP_FRAME_COUNT ?cap) 0)"
  let ?stride = "sample_stride_of ?total (sample_count_of ?total (effective_sample_ratio ratio))"
  obtain st' where "scan_loop ?cap ?total (py_or (CAP_PROP_FPS ?cap) 30.0) ?stride initial_state = Some st'"
    using scan_loop_returns[OF sample_stride_of_pos] by blast
  then show ?thesis
    unfolding main_def Let_def by auto
qed

lemma fallback_unit:
  "0 \<le> portraitSignal fallback_payload \<and> portraitSignal fallback_payload \<le> 1
   \<and> 0 \<le> landscapeSignal fallback_payload \<and> landscapeSignal fallback_payload \<le> 1
   \<and> 0 \<le> centeredFaceVerticalSignal fallback_payload \<and> centeredFaceVerticalSignal fallback_payload \<le> 1
   \<and> 0 \<le> horizontalMotionSignal fallback_payload \<and> horizontalMotionSignal fallback_payload \<le> 1
   \<and> 0 \<le> highMotionShortClipSignal fallback_payload \<and> highMotionShortClipSignal fallback_payload \<le> 1"
  by (simp add: fallback_payload_def)

lemma round_clamp_unit: "0 \<le> py_round (clamp v 0.0 1.0) n \<and> py_round (clamp v 0.0 1.0) n \<le> 1"
  using clamp_bounds[of 0 1 v] by (simp add: py_round_unit)

lemma build_payload_unit:
  "0 \<le> portraitSignal (build_payload stride st) \<and> portraitSignal (build_payload stride st) \<le> 1
   \<and> 0 \<le> landscapeSignal (build_payload stride st) \<and> landscapeSignal (build_payload stride st) \<le> 1
   \<and> 0 \<le> centeredFaceVerticalSignal (build_payload stride st) \<and> centeredFaceVerticalSignal (build_payload stride st) \<le> 1
   \<and> 0 \<le> horizontalMotionSignal (build_payload stride st) \<and> horizontalMotionSignal (build_payload stride st) \<le> 1
   \<and> 0 \<le> highMotionShortClipSignal (build_payload stride st) \<and> highMotionShortClipSignal (build_payload stride st) \<le> 1"
proof (cases "sampled_frames st \<le> 0")
  case True
  then show ?thesis using fallback_unit by (simp add: build_payload_def)
next
  case False
  then show ?thesis
    using round_clamp_unit by (simp add: build_payload_def Let_def)
qed

lemma scan_loop_step:
  "frame_index st < total_frames \<Longrightarrow>
   scan_loop cap total_frames fps sample_stride st =
   scan_loop cap total_frames fps sample_stride (loop_body cap fps sample_stride st)"
  by (subst scan_loop.simps) simp

lemma scan_loop_stop:
  "\<not> frame_index st < total_frames \<Longrightarrow> scan_loop cap total_frames fps sample_stride st = Some st"
  by (subst scan_loop.simps) simp

lemma loop_body_seeks:
  "seeks (loop_body cap fps sample_stride st) = seeks st @ [frame_index st]"
  by (simp add: loop_body_def Let_def split: option.splits prod.splits)

lemma loop_body_None:
  "read_at cap (frame_index st) = None \<Longrightarrow>
   loop_body cap fps sample_stride st =
   st\<lparr>seeks := seeks st @ [frame_index st], frame_index := frame_index st + sample_stride\<rparr>"
  by (simp add: loop_body_def Let_def)

lemma loop_body_Some:
  "read_at cap (frame_index st) = Some fr \<Longrightarrow>
   loop_body cap fps sample_stride st =
   st\<lparr> seeks := seeks st @ [frame_index st],
       sampled_frames := sampled_frames st + 1,
       portrait_score_total := portrait_score_total st + portrait_score fr,
       landscape_score_total := landscape_score_total st + landscape_score fr,
       centered_face_total :=
         centered_face_total st + centered_face (fst (shape (gray fr))) (snd (shape (gray fr))) (faces fr),
       horizontal_motion_total :=
         (case prev_gray st of
            None \<Rightarrow> horizontal_motion_total st
          | Some p \<Rightarrow> horizontal_motion_total st + band_motion p (gray fr)),
       motion_values :=
         motion_values st @ [case prev_gray st of None \<Rightarrow> 0 | Some p \<Rightarrow> frame_motion p (gray fr)],
       motion_timestamps := motion_timestamps st @ [real_of_int (frame_index st) / max 1 fps],
       prev_gray := Some (gray fr),
       frame_index := frame_index st + sample_stride \<rparr>"
  by (cases "prev_gray st") (simp_all add: loop_body_def Let_def split: prod.splits)

lemma seeks_inv_initial: "seeks_inv sample_stride initial_state"
  by (simp add: seeks_inv_def initial_state_def)

lemma seeks_inv_step:
  assumes "seeks_inv sample_stride st"
  shows "seeks_inv sample_stride (loop_body cap fps sample_stride st)"
proof -
  from assms obtain n where n: "seeks st = map (\<lambda>k. int k * sample_stride) [0..<n]"
    "frame_index st = int n * sample_stride"
    unfolding seeks_inv_def by blast
  have "seeks (loop_body cap fps sample_stride st) = map (\<lambda>k. int k * sample_stride) [0..<Suc n]"
    using n by (simp add: loop_body_seeks)
  moreover have "frame_index (loop_body cap fps sample_stride st) = int (Suc n) * sample_stride"
    using n by (simp add: loop_body_frame_index algebra_simps)
  ultimately show ?thesis unfolding seeks_inv_def by blast
qed

lemma trace_inv_initial: "trace_inv cap fps initial_state"
  by (simp add: trace_inv_def initial_state_def decoded_def)

lemma trace_inv_step:
  assumes "trace_inv cap fps st"
  shows "trace_inv cap fps (loop_body cap fps sample_stride st)"
proof (cases "read_at cap (frame_index st)")
  case None
  then show ?thesis using assms by (simp add: loop_body_None trace_inv_def decoded_def)
next
  case (Some fr)
  then show ?thesis using assms by (simp add: loop_body_Some trace_inv_def decoded_def)
qed

lemma below_total_step:
  assumes "list_all (\<lambda>i. i < total_frames) (seeks st)" and "frame_index st < total_frames"
  shows "list_all (\<lambda>i. i < total_frames) (seeks (loop_body cap fps sample_stride st))"
  using assms by (simp add: loop_body_seeks)

lemma scan_loop_final:
  assumes "1 \<le> sample_stride"
  shows "\<exists>st' n. scan_loop cap total_frames fps sample_stride initial_state = Some st'
           \<and> seeks st' = map (\<lambda>k. int k * sample_stride) [0..<n]
           \<and> (\<forall>k. (k < n) = (int k * sample_stride < total_frames))
           \<and> trace_inv cap fps st'"
proof -
  let ?P = "\<lambda>s. seeks_inv sample_stride s \<and> trace_inv cap fps s
                \<and> list_all (\<lambda>i. i < total_frames) (seeks s)"
  have "?P initial_state"
    by (simp add: seeks_inv_initial trace_inv_initial) (simp add: initial_state_def)
  moreover have "?P (loop_body cap fps sample_stride s)" if "?P s" "frame_index s < total_frames" for s
    using that by (simp add: seeks_inv_step trace_inv_step below_total_step)
  ultimately obtain st' where st': "scan_loop cap total_frames fps sample_stride initial_state = Some st'"
    "?P st'" "total_frames \<le> frame_index st'"
    using scan_loop_rule[OF assms, of ?P initial_state total_frames cap fps] by blast
  then obtain n where n: "seeks st' = map (\<lambda>k. int k * sample_stride) [0..<n]"
    "frame_index st' = int n * sample_stride"
    unfolding seeks_inv_def by blast
  have "(k < n) = (int k * sample_stride < total_frames)" for k
  proof
    assume "k < n"
    then have "int k * sample_stride \<in> set (seeks st')" using n(1) by auto
    then show "int k * sample_stride < total_frames" using st'(2) by (simp add: list_all_iff)
  next
    assume "int k * sample_stride < total_frames"
    then have "int k * sample_stride < int n * sample_stride" using st'(3) n(2) by simp
    then show "k < n" using assms by (simp add: mult_less_cancel_right)
  qed
  then show ?thesis using st' n(1) by blast
qed





lemma main_normal_path:
  assumes "input_exists env" and "cv2_imports env" and "isOpened (VideoCapture env)"
    and "0 < py_int (py_or (CAP_PROP_FRAME_COUNT (VideoCapture env)) 0)"
    and "0 < py_int (py_or (CAP_PROP_FRAME_WIDTH (VideoCapture env)) 0)"
    and "0 < py_int (py_or (CAP_PROP_FRAME_HEIGHT (VideoCapture env)) 0)"
    and "scan_loop (VideoCapture env) (py_int (py_or (CAP_PROP_FRAME_COUNT (VideoCapture env)) 0))
           (py_or (CAP_PROP_FPS (VideoCapture env)) 30.0)
           (sample_stride_of (py_int (py_or (CAP_PROP_FRAME_COUNT (VideoCapture env)) 0))
              (sample_count_of (py_int (py_or (CAP_PROP_FRAME_COUNT (VideoCapture env)) 0))
                 (effective_sample_ratio ratio)))
           initial_state = Some st"
  shows "main ratio env =
         Some (0, build_payload
                    (sample_stride_of (py_int (py_or (CAP_PROP_FRAME_COUNT (VideoCapture env)) 0))
                       (sample_count_of (py_int (py_or (CAP_PROP_FRAME_COUNT (VideoCapture env)) 0))
                          (effective_sample_ratio ratio))) st)"
  using assms by (simp add: main_def Let_def)

lemma sampledFrames_build_payload:
  "0 \<le> sampled_frames st \<Longrightarrow> sampledFrames (build_payload stride st) = sampled_frames st"
  by (simp add: build_payload_def fallback_payload_def Let_def)

lemma visit_count_unique:
  assumes "\<forall>k. (k < n) = (int k * sample_stride < total_frames)"
    and "int m * sample_stride < total_frames" and "\<not> int (Suc m) * sample_stride < total_frames"
  shows "n = Suc m"
  using assms by (metis not_less_eq less_antisym)

lemma uniform_sampled:
  assumes "1 \<le> sample_stride"
  shows "\<exists>st' n. scan_loop (uniform_capture c f fr) total_frames fps sample_stride initial_state = Some st'
     \<and> (\<forall>k. (k < n) = (int k * sample_stride < total_frames)) \<and> sampled_frames st' = int n"
proof -
  obtain st' n where run: "scan_loop (uniform_capture c f fr) total_frames fps sample_stride initial_state = Some st'"
    "seeks st' = map (\<lambda>k. int k * sample_stride) [0..<n]"
    "\<forall>k. (k < n) = (int k * sample_stride < total_frames)"
    "trace_inv (uniform_capture c f fr) fps st'"
    using scan_loop_final[OF assms] by blast
  have "decoded (uniform_capture c f fr) (seeks st') = seeks st'"
    by (simp add: decoded_def uniform_capture_def)
  then have "sampled_frames st' = int n" using run(2,4) by (simp add: trace_inv_def)
  then show ?thesis using run by blast
qed

lemma main_returns: "\<exists>r. main ratio env = Some (0, r)"
  using main_cases[of ratio env] by blast

lemma effective_sample_ratio_zero: "effective_sample_ratio 0 = 1 / 10"
  by (simp add: effective_sample_ratio_def py_or_def clamp_def)

lemma effective_sample_ratio_small:
  "x \<noteq> 0 \<Longrightarrow> x \<le> 1 / 100 \<Longrightarrow> effective_sample_ratio x = 1 / 100"
  by (simp add: effective_sample_ratio_def py_or_def clamp_def)

lemma nat_less_iff_eq:
  assumes "\<And>j::nat. (j < a) = (j < b)"
  shows "a = b"
  using assms[of a] assms[of b] by auto

lemma visit_count_exact:
  assumes "1 \<le> sample_stride"
    and "\<forall>k. (k < n) = (int k * sample_stride < int q * sample_stride)"
  shows "n = q"
proof (rule nat_less_iff_eq)
  fix j
  show "(j < n) = (j < q)" using assms by (simp add: mult_less_cancel_right)
qed

lemma uniform_main_sampledFrames:
  assumes "0 < total_frames"
    and "sample_stride_of total_frames (sample_count_of total_frames (effective_sample_ratio ratio)) = s"
    and "int m * s < total_frames" and "\<not> int (Suc m) * s < total_frames"
  shows "main ratio (ready (uniform_capture (real_of_int total_frames) 30 fr))
         = Some (0, r) \<Longrightarrow> sampledFrames r = int (Suc m)"
proof -
  let ?cap = "uniform_capture (real_of_int total_frames) 30 fr"
  assume m: "main ratio (ready ?cap) = Some (0, r)"
  have s: "1 \<le> s" using assms(2) sample_stride_of_pos by metis
  obtain st' n where run: "scan_loop ?cap total_frames 30 s initial_state = Some st'"
    "\<forall>k. (k < n) = (int k * s < total_frames)" "sampled_frames st' = int n"
    using uniform_sampled[OF s] by blast
  have n: "n = Suc m" using run(2) assms(3,4) by (rule visit_count_unique)
  have "main ratio (ready ?cap) = Some (0, build_payload s st')"
    using main_normal_path[where env="ready ?cap" and st="st'" and ratio=ratio] run(1) assms(1,2)
    by (simp add: ready_def uniform_capture_def py_or_def py_int_def)
  then show ?thesis using m run(3) n by (simp add: sampledFrames_build_payload)
qed

lemma flat_frame_scores:
  "portrait_score (flat_frame v) = 38 / 100" "landscape_score (flat_frame v) = 13 / 100"
  "centered_face 2 2 [] = 0" "shape [[v, v], [v, v]] = (2, 2)"
  by (simp_all add: flat_frame_def portrait_score_def landscape_score_def shape_def Let_def
      centered_face_def center_density_def top_density_def bottom_density_def left_density_def
      right_density_def region_mean_def slice_def py_int_def)

lemma flat_frame_motion:
  "frame_motion [[u, u], [u, u]] [[v, v], [v, v]] = real (if u \<le> v then v - u else u - v) / 255"
  "band_motion [[u, u], [u, u]] [[v, v], [v, v]] = real (if u \<le> v then v - u else u - v) / 255"
  by (simp_all add: frame_motion_def band_motion_def absdiff_def shape_def Let_def region_mean_def
      slice_def py_int_def)

lemma sample_params_4_half:
  "sample_stride_of 4 (sample_count_of 4 (effective_sample_ratio (1 / 2))) = 2"
  by (simp add: effective_sample_ratio_def py_or_def clamp_def sample_count_of_def
      sample_stride_of_def py_int_def)

lemma flash_run:
  "scan_loop flash_capture 4 (1 / 2) 2 initial_state =
   Some \<lparr> sampled_frames = 2, portrait_score_total = 76 / 100, landscape_score_total = 26 / 100,
          centered_face_total = 0, horizontal_motion_total = 1, motion_values = [0, 1],
          motion_timestamps = [0, 2], prev_gray = Some [[255, 255], [255, 255]],
          frame_index = 4, seeks = [0, 2] \<rparr>"
proof -
  have r0: "read_at flash_capture 0 = Some (flat_frame 0)"
    and r2: "read_at flash_capture 2 = Some (flat_frame 255)"
    by (simp_all add: flash_capture_def)
  let ?s1 = "\<lparr> sampled_frames = 1, portrait_score_total = 38 / 100,
          landscape_score_total = 13 / 100, centered_face_total = 0,
          horizontal_motion_total = 0, motion_values = [0], motion_timestamps = [0],
          prev_gray = Some [[0, 0], [0, 0]], frame_index = 2, seeks = [0] \<rparr>"
  let ?s2 = "\<lparr> sampled_frames = 2, portrait_score_total = 76 / 100, landscape_score_total = 26 / 100,
          centered_face_total = 0, horizontal_motion_total = 1, motion_values = [0, 1],
          motion_timestamps = [0, 2], prev_gray = Some [[255, 255], [255, 255]],
          frame_index = 4, seeks = [0, 2] \<rparr>"
  have b1: "loop_body flash_capture (1 / 2) 2 initial_state = ?s1"
    using r0 by (subst loop_body_Some[where fr="flat_frame 0"])
      (simp_all add: initial_state_def flat_frame_scores, simp add: flat_frame_def flat_frame_scores)
  have b2: "loop_body flash_capture (1 / 2) 2 ?s1 = ?s2"
    using r2 by (subst loop_body_Some[where fr="flat_frame 255"])
      (simp_all add: flat_frame_scores, simp add: flat_frame_def flat_frame_scores flat_frame_motion)
  have "frame_index initial_state < 4" by (simp add: initial_state_def)
  from scan_loop_step[OF this, of flash_capture "1 / 2" 2]
  have "scan_loop flash_capture 4 (1 / 2) 2 initial_state = scan_loop flash_capture 4 (1 / 2) 2 ?s1"
    by (simp only: b1)
  also have "\<dots> = scan_loop flash_capture 4 (1 / 2) 2 ?s2"
    by (subst scan_loop_step) (simp, simp only: b2)
  also have "\<dots> = Some ?s2" by (subst scan_loop_stop) simp_all
  finally show ?thesis .
qed

lemma still_run:
  "scan_loop still_capture 4 30 2 initial_state =
   Some \<lparr> sampled_frames = 2, portrait_score_total = 76 / 100, landscape_score_total = 26 / 100,
          centered_face_total = 0, horizontal_motion_total = 0, motion_values = [0, 0],
          motion_timestamps = [0, 1 / 15], prev_gray = Some [[7, 7], [7, 7]],
          frame_index = 4, seeks = [0, 2] \<rparr>"
proof -
  have r: "read_at still_capture i = Some (flat_frame 7)" for i
    by (simp add: still_capture_def uniform_capture_def)
  let ?s1 = "\<lparr> sampled_frames = 1, portrait_score_total = 38 / 100,
          landscape_score_total = 13 / 100, centered_face_total = 0,
          horizontal_motion_total = 0, motion_values = [0], motion_timestamps = [0],
          prev_gray = Some [[7, 7], [7, 7]], frame_index = 2, seeks = [0] \<rparr>"
  let ?s2 = "\<lparr> sampled_frames = 2, portrait_score_total = 76 / 100, landscape_score_total = 26 / 100,
          centered_face_total = 0, horizontal_motion_total = 0, motion_values = [0, 0],
          motion_timestamps = [0, 1 / 15], prev_gray = Some [[7, 7], [7, 7]],
          frame_index = 4, seeks = [0, 2] \<rparr>"
  have b1: "loop_body still_capture 30 2 initial_state = ?s1"
    using r by (subst loop_body_Some[where fr="flat_frame 7"])
      (simp_all add: initial_state_def flat_frame_scores, simp add: flat_frame_def flat_frame_scores)
  have b2: "loop_body still_capture 30 2 ?s1 = ?s2"
    using r by (subst loop_body_Some[where fr="flat_frame 7"])
      (simp_all add: flat_frame_scores, simp add: flat_frame_def flat_frame_scores flat_frame_motion)
  have "frame_index initial_state < 4" by (simp add: initial_state_def)
  from scan_loop_step[OF this, of still_capture 30 2]
  have "scan_loop still_capture 4 30 2 initial_state = scan_loop still_capture 4 30 2 ?s1"
    by (simp only: b1)
  also have "\<dots> = scan_loop still_capture 4 30 2 ?s2"
    by (subst scan_loop_step) (simp, simp only: b2)
  also have "\<dots> = Some ?s2" by (subst scan_loop_stop) simp_all
  finally show ?thesis .
qed

lemma gap_run:
  "scan_loop gap_capture 4 30 2 initial_state =
   Some \<lparr> sampled_frames = 1, portrait_score_total = 38 / 100, landscape_score_total = 13 / 100,
          centered_face_total = 0, horizontal_motion_total = 0, motion_values = [0],
          motion_timestamps = [1 / 15], prev_gray = Some [[7, 7], [7, 7]],
          frame_index = 4, seeks = [0, 2] \<rparr>"
proof -
  have r0: "read_at gap_capture 0 = None" and r2: "read_at gap_capture 2 = Some (flat_frame 7)"
    by (simp_all add: gap_capture_def)
  let ?s1 = "initial_state\<lparr>seeks := [0], frame_index := 2\<rparr>"
  let ?s2 = "\<lparr> sampled_frames = 1, portrait_score_total = 38 / 100, landscape_score_total = 13 / 100,
          centered_face_total = 0, horizontal_motion_total = 0, motion_values = [0],
          motion_timestamps = [1 / 15], prev_gray = Some [[7, 7], [7, 7]],
          frame_index = 4, seeks = [0, 2] \<rparr>"
  have b1: "loop_body gap_capture 30 2 initial_state = ?s1"
    using r0 by (subst loop_body_None) (simp_all add: initial_state_def)
  have b2: "loop_body gap_capture 30 2 ?s1 = ?s2"
    using r2 by (subst loop_body_Some[where fr="flat_frame 7"])
      (simp_all add: initial_state_def flat_frame_scores, simp add: flat_frame_def flat_frame_scores)
  have "frame_index initial_state < 4" by (simp add: initial_state_def)
  from scan_loop_step[OF this, of gap_capture 30 2]
  have "scan_loop gap_capture 4 30 2 initial_state = scan_loop gap_capture 4 30 2 ?s1"
    by (simp only: b1)
  also have "\<dots> = scan_loop gap_capture 4 30 2 ?s2"
    by (subst scan_loop_step) (simp add: initial_state_def, simp only: b2)
  also have "\<dots> = Some ?s2" by (subst scan_loop_stop) simp_all
  finally show ?thesis .
qed

lemma ready_main:
  assumes "isOpened cap" and "CAP_PROP_FRAME_COUNT cap = 4" and "CAP_PROP_FPS cap = fps" and "fps \<noteq> 0"
    and "CAP_PROP_FRAME_WIDTH cap = 2" and "CAP_PROP_FRAME_HEIGHT cap = 2"
    and "scan_loop cap 4 fps 2 initial_state = Some st"
  shows "main (1 / 2) (ready cap) = Some (0, build_payload 2 st)"
  using main_normal_path[where env="ready cap" and st=st and ratio="1 / 2"] assms
  by (simp add: ready_def py_or_def py_int_def sample_params_4_half)

lemma round_half_even_of_int: "round_half_even (of_int k) = k"
  by (simp add: round_half_even_def)

lemma py_round_exact: "x * 10 ^ n = of_int k \<Longrightarrow> py_round x n = of_int k / 10 ^ n"
  by (simp add: py_round_def round_half_even_of_int)

lemma sqrt_quarter: "sqrt (1 / 4) = 1 / 2"
  by (simp add: real_sqrt_divide)

lemma flash_threshold: "high_motion_threshold [0, 1] = 7 / 8"
  by (simp add: high_motion_threshold_def motion_array_def np_mean_def np_std_def power2_eq_square
      sqrt_quarter)

lemma still_threshold: "high_motion_threshold [0, 0] = 0"
  by (simp add: high_motion_threshold_def motion_array_def np_mean_def np_std_def)

lemma flash_main:
  "main (1 / 2) (ready flash_capture) =
   Some (0, \<lparr> sampledFrames = 2, sampleStride = 2, portraitSignal = 38 / 100,
              landscapeSignal = 13 / 100, centeredFaceVerticalSignal = 0,
              horizontalMotionSignal = 1, highMotionShortClipSignal = 675 / 1000,
              motionPeaks = [2] \<rparr>)"
proof -
  have r: "py_round (19 / 50) 4 = 19 / 50" "py_round (13 / 100) 4 = 13 / 100"
    "py_round 0 4 = 0" "py_round 1 4 = 1" "py_round (27 / 40) 4 = 27 / 40" "py_round 2 2 = 2"
    using py_round_exact[of "19 / 50" 4 3800] py_round_exact[of "13 / 100" 4 1300]
      py_round_exact[of 0 4 0] py_round_exact[of 1 4 10000] py_round_exact[of "27 / 40" 4 6750]
      py_round_exact[of 2 2 200]
    by simp_all
  have "main (1 / 2) (ready flash_capture) = Some (0, build_payload 2
      \<lparr> sampled_frames = 2, portrait_score_total = 76 / 100, landscape_score_total = 26 / 100,
          centered_face_total = 0, horizontal_motion_total = 1, motion_values = [0, 1],
          motion_timestamps = [0, 2], prev_gray = Some [[255, 255], [255, 255]],
          frame_index = 4, seeks = [0, 2] \<rparr>)"
    by (rule ready_main[where fps="1 / 2"]) (simp_all add: flash_capture_def flash_run[unfolded flash_capture_def])
  then show ?thesis
    by (simp add: build_payload_def Let_def clamp_def high_motion_ratio_def flash_threshold
        motion_array_def peak_pairs_def r)
qed

lemma still_main:
  "main (1 / 2) (ready still_capture) =
   Some (0, \<lparr> sampledFrames = 2, sampleStride = 2, portraitSignal = 38 / 100,
              landscapeSignal = 13 / 100, centeredFaceVerticalSignal = 0,
              horizontalMotionSignal = 0, highMotionShortClipSignal = 0,
              motionPeaks = [0] \<rparr>)"
proof -
  have r: "py_round (19 / 50) 4 = 19 / 50" "py_round (13 / 100) 4 = 13 / 100"
    "py_round 0 4 = 0" "py_round 0 2 = 0"
    using py_round_exact[of "19 / 50" 4 3800] py_round_exact[of "13 / 100" 4 1300]
      py_round_exact[of 0 4 0] py_round_exact[of 0 2 0]
    by simp_all
  have "main (1 / 2) (ready still_capture) = Some (0, build_payload 2
      \<lparr> sampled_frames = 2, portrait_score_total = 76 / 100, landscape_score_total = 26 / 100,
          centered_face_total = 0, horizontal_motion_total = 0, motion_values = [0, 0],
          motion_timestamps = [0, 1 / 15], prev_gray = Some [[7, 7], [7, 7]],
          frame_index = 4, seeks = [0, 2] \<rparr>)"
    by (rule ready_main[where fps=30])
      (simp_all add: still_capture_def uniform_capture_def still_run[unfolded still_capture_def uniform_capture_def])
  then show ?thesis
    by (simp add: build_payload_def Let_def clamp_def high_motion_ratio_def still_threshold
        motion_array_def peak_pairs_def r)
qed

lemma gap_main:
  "main (1 / 2) (ready gap_capture) =
   Some (0, \<lparr> sampledFrames = 1, sampleStride = 2, portraitSignal = 38 / 100,
              landscapeSignal = 13 / 100, centeredFaceVerticalSignal = 0,
              horizontalMotionSignal = 0, highMotionShortClipSignal = 0,
              motionPeaks = [7 / 100] \<rparr>)"
proof -
  have r: "py_round (19 / 50) 4 = 19 / 50" "py_round (13 / 100) 4 = 13 / 100"
    "py_round 0 4 = 0"
    using py_round_exact[of "19 / 50" 4 3800] py_round_exact[of "13 / 100" 4 1300]
      py_round_exact[of 0 4 0]
    by simp_all
  have r2: "py_round (1 / 15) 2 = 7 / 100"
    by (simp add: py_round_def round_half_even_def)
  have t: "high_motion_threshold [0] = 0"
    by (simp add: high_motion_threshold_def motion_array_def np_mean_def np_std_def)
  have "main (1 / 2) (ready gap_capture) = Some (0, build_payload 2
      \<lparr> sampled_frames = 1, portrait_score_total = 38 / 100, landscape_score_total = 13 / 100,
          centered_face_total = 0, horizontal_motion_total = 0, motion_values = [0],
          motion_timestamps = [1 / 15], prev_gray = Some [[7, 7], [7, 7]],
          frame_index = 4, seeks = [0, 2] \<rparr>)"
    by (rule ready_main[where fps=30])
      (simp_all add: gap_capture_def gap_run[unfolded gap_capture_def])
  then show ?thesis
    by (simp add: build_payload_def Let_def clamp_def high_motion_ratio_def t
        motion_array_def peak_pairs_def r r2)
qed

lemma invariants_after:
  "seeks_inv sample_stride ((loop_body cap fps sample_stride ^^ n) initial_state)
   \<and> trace_inv cap fps ((loop_body cap fps sample_stride ^^ n) initial_state)"
  by (induction n) (simp_all add: seeks_inv_initial trace_inv_initial seeks_inv_step trace_inv_step)

lemma timestamps_increase:
  assumes "1 \<le> sample_stride"
    and "seeks st = map (\<lambda>k. int k * sample_stride) [0..<n]"
    and "trace_inv cap fps st"
  shows "sorted_wrt (<) (motion_timestamps st)"
proof -
  have "sorted_wrt (\<lambda>j k. int j * sample_stride < int k * sample_stride) [0..<n]"
    using assms(1) by (intro sorted_wrt_mono_rel[OF _ sorted_wrt_upt]) (simp add: mult_less_cancel_right)
  then have "sorted_wrt (<) (seeks st)" by (simp add: assms(2) sorted_wrt_map)
  then have "sorted_wrt (<) (decoded cap (seeks st))" by (simp add: decoded_def sorted_wrt_filter)
  then have "sorted_wrt (\<lambda>i j. real_of_int i / max 1 fps < real_of_int j / max 1 fps)
               (decoded cap (seeks st))"
    by (rule sorted_wrt_mono_rel[rotated]) (simp add: divide_strict_right_mono)
  then show ?thesis using assms(3) by (simp add: trace_inv_def sorted_wrt_map)
qed

lemma distinct_map_insort_key:
  "distinct (map f (insort_key k x ys)) = (f x \<notin> f ` set ys \<and> distinct (map f ys))"
  by (induction ys) (auto simp: set_insort_key)

lemma distinct_map_sort_key: "distinct (map f (sort_key k xs)) = distinct (map f xs)"
  by (induction xs) (simp_all add: distinct_map_insort_key)

lemma peak_pairs_distinct:
  assumes "distinct mts" and "length mv = length mts"
  shows "distinct (map fst (peak_pairs mts mv))"
proof -
  have "distinct (map fst (zip mts mv))" using assms by (simp add: map_fst_zip)
  then show ?thesis by (simp add: peak_pairs_def distinct_map_sort_key distinct_map_filter)
qed



lemma absdiff_same: "concat (absdiff g g) = replicate (length (concat g)) 0"
proof -
  have row: "map2 (\<lambda>p q. if p \<le> q then q - p else p - q) r r = replicate (length r) (0::nat)"
    for r :: "nat list"
    by (induction r) simp_all
  have "absdiff g g = map (\<lambda>r. replicate (length r) 0) g"
    by (induction g) (simp_all add: absdiff_def row)
  then show ?thesis by (induction g) (simp_all add: replicate_add absdiff_def row)
qed

lemma frame_motion_same: "frame_motion g g = 0"
  by (simp add: frame_motion_def region_mean_def absdiff_same)

lemma still_inv_initial: "still_inv g initial_state"
  by (simp add: still_inv_def initial_state_def)

lemma still_inv_step:
  assumes "still_inv g st"
    and "\<forall>i. read_at cap i = None \<or> map_option gray (read_at cap i) = Some g"
  shows "still_inv g (loop_body cap fps sample_stride st)"
proof (cases "read_at cap (frame_index st)")
  case None
  then show ?thesis using assms(1) by (simp add: loop_body_None still_inv_def)
next
  case (Some fr)
  then have "gray fr = g" using assms(2) by (metis option.distinct(1) option.sel option.simps(9))
  then show ?thesis using assms(1) Some
    by (auto simp: loop_body_Some still_inv_def frame_motion_same)
qed

lemma all_zero_replicate: "list_all (\<lambda>v. v = 0) xs \<Longrightarrow> xs = replicate (length xs) (0::real)"
  by (induction xs) simp_all

lemma zero_motion_statistics:
  assumes "list_all (\<lambda>v. v = 0) mv"
  shows "np_mean (motion_array mv) = 0" and "np_std (motion_array mv) = 0"
    and "high_motion_threshold mv = 0" and "high_motion_ratio mv = 0"
proof -
  define n where "n = length (motion_array mv)"
  have "motion_array mv = replicate (length (motion_array mv)) 0"
    using assms all_zero_replicate[of mv] by (simp add: motion_array_def)
  then have arr: "motion_array mv = replicate n 0" by (simp only: n_def)
  show m: "np_mean (motion_array mv) = 0" by (simp add: arr np_mean_def sum_list_replicate)
  show s: "np_std (motion_array mv) = 0"
    unfolding np_std_def m by (simp add: arr np_mean_def sum_list_replicate)
  show t: "high_motion_threshold mv = 0" by (simp add: high_motion_threshold_def m s)
  have "filter (\<lambda>v. 0 < v) (motion_array mv) = []" by (simp add: arr)
  then show "high_motion_ratio mv = 0" by (simp add: high_motion_ratio_def t Let_def)
qed

lemma unique_peaks_extends: "\<exists>zs. unique_peaks acc ps = acc @ zs"
proof (induction ps arbitrary: acc)
  case Nil
  then show ?case by simp
next
  case (Cons p ps)
  obtain ts score where p: "p = (ts, score)" by (cases p)
  show ?case
  proof (cases "list_ex (\<lambda>existing. \<bar>ts - existing\<bar> < 4.5) acc")
    case True
    then show ?thesis using Cons[of acc] by (simp add: p)
  next
    case False
    then show ?thesis using Cons[of "acc @ [ts]"] by (auto simp: p)
  qed
qed

lemma zero_motion_peaks:
  assumes "list_all (\<lambda>v. v = 0) mv" and "length mv = length mts" and "mts \<noteq> []"
  shows "\<exists>zs. unique_peaks [] (peak_pairs mts mv) = hd mts # zs"
proof -
  define n where "n = length mts"
  have t: "high_motion_threshold mv = 0" using assms(1) by (rule zero_motion_statistics)
  have mv: "mv = replicate n 0" using assms(1,2) all_zero_replicate[of mv] by (simp add: n_def)
  have "map snd (zip mts mv) = replicate n 0"
    using assms(2) by (simp add: map_snd_zip mv n_def)
  then have "map uminus (map snd (zip mts mv)) = replicate n 0" by simp
  then have keys: "map (\<lambda>item. - snd item) (zip mts mv) = replicate n 0"
    by (simp add: comp_def)
  have "\<forall>p \<in> set (zip mts mv). snd p = 0"
    using assms(1) by (auto simp: list_all_iff dest: set_zip_rightD)
  then have all: "filter (\<lambda>(ts, value). high_motion_threshold mv \<le> value) (zip mts mv) = zip mts mv"
    by (auto simp: t filter_id_conv)
  have "sort_key (\<lambda>item. - snd item) (zip mts mv) = zip mts mv"
    by (rule sort_key_id_if_sorted) (simp add: keys)
  then have pp: "peak_pairs mts mv = zip mts mv" by (simp add: peak_pairs_def all)
  obtain t0 mts' where m: "mts = t0 # mts'" using assms(3) by (cases mts) auto
  then obtain v0 mv' where v: "mv = v0 # mv'" using assms(2) by (cases mv) auto
  obtain zs where "unique_peaks [t0] (zip mts' mv') = [t0] @ zs"
    using unique_peaks_extends by blast
  then show ?thesis using pp by (simp add: m v)
qed

lemma main_sampled:
  assumes "main ratio env = Some (0, r)" and "0 < sampledFrames r"
  shows "\<exists>st. scan_loop (VideoCapture env) (py_int (py_or (CAP_PROP_FRAME_COUNT (VideoCapture env)) 0))
                  (py_or (CAP_PROP_FPS (VideoCapture env)) 30.0)
                  (sample_stride_of (py_int (py_or (CAP_PROP_FRAME_COUNT (VideoCapture env)) 0))
                     (sample_count_of (py_int (py_or (CAP_PROP_FRAME_COUNT (VideoCapture env)) 0))
                        (effective_sample_ratio ratio)))
                  initial_state = Some st
            \<and> r = build_payload
                    (sample_stride_of (py_int (py_or (CAP_PROP_FRAME_COUNT (VideoCapture env)) 0))
                       (sample_count_of (py_int (py_or (CAP_PROP_FRAME_COUNT (VideoCapture env)) 0))
                          (effective_sample_ratio ratio))) st
            \<and> 0 < sampled_frames st"
proof -
  have nf: "r \<noteq> fallback_payload" using assms(2) by (auto simp: fallback_payload_def)
  then obtain st where st: "scan_loop (VideoCapture env) (py_int (py_or (CAP_PROP_FRAME_COUNT (VideoCapture env)) 0))
                  (py_or (CAP_PROP_FPS (VideoCapture env)) 30.0)
                  (sample_stride_of (py_int (py_or (CAP_PROP_FRAME_COUNT (VideoCapture env)) 0))
                     (sample_count_of (py_int (py_or (CAP_PROP_FRAME_COUNT (VideoCapture env)) 0))
                        (effective_sample_ratio ratio)))
                  initial_state = Some st"
      "r = build_payload
                    (sample_stride_of (py_int (py_or (CAP_PROP_FRAME_COUNT (VideoCapture env)) 0))
                       (sample_count_of (py_int (py_or (CAP_PROP_FRAME_COUNT (VideoCapture env)) 0))
                          (effective_sample_ratio ratio))) st"
    using assms(1) by (auto simp: main_def Let_def split: if_splits option.splits)
  have "0 < sampled_frames st"
    using nf st(2) by (cases "sampled_frames st \<le> 0") (simp_all add: build_payload_def)
  then show ?thesis using st by blast
qed

lemma zero_motion_payload:
  assumes "\<forall>i. read_at (VideoCapture env) i = None
               \<or> map_option gray (read_at (VideoCapture env) i) = Some g"
    and "main ratio env = Some (0, r)" and "0 < sampledFrames r"
  shows "\<exists>st. r = build_payload (sampleStride r) st
           \<and> motion_values st \<noteq> []
           \<and> list_all (\<lambda>v. v = 0) (motion_values st)
           \<and> np_mean (motion_array (motion_values st)) = 0
           \<and> np_std (motion_array (motion_values st)) = 0
           \<and> high_motion_threshold (motion_values st) = 0
           \<and> high_motion_ratio (motion_values st) = 0
           \<and> highMotionShortClipSignal r = 0
           \<and> motionPeaks r \<noteq> []
           \<and> hd (motionPeaks r) = py_round (hd (motion_timestamps st)) 2"
proof -
  let ?cap = "VideoCapture env"
  let ?total = "py_int (py_or (CAP_PROP_FRAME_COUNT ?cap) 0)"
  let ?fps = "py_or (CAP_PROP_FPS ?cap) 30.0"
  let ?stride = "sample_stride_of ?total (sample_count_of ?total (effective_sample_ratio ratio))"
  obtain st where st: "scan_loop ?cap ?total ?fps ?stride initial_state = Some st"
    "r = build_payload ?stride st" "0 < sampled_frames st"
    using main_sampled[OF assms(2,3)] by blast
  let ?P = "\<lambda>s. still_inv g s \<and> trace_inv ?cap ?fps s"
  have "?P initial_state" by (simp add: still_inv_initial trace_inv_initial)
  moreover have "?P (loop_body ?cap ?fps ?stride s)" if "?P s" for s
    using that assms(1) by (simp add: still_inv_step trace_inv_step)
  ultimately obtain st' where "scan_loop ?cap ?total ?fps ?stride initial_state = Some st'" "?P st'"
    using scan_loop_rule[OF sample_stride_of_pos, of ?P initial_state ?total ?cap ?fps] by blast
  then have inv: "still_inv g st" "trace_inv ?cap ?fps st" using st(1) by simp_all
  have zero: "list_all (\<lambda>v. v = 0) (motion_values st)" using inv(1) by (simp add: still_inv_def)
  have len: "length (motion_values st) = length (motion_timestamps st)"
    and cnt: "sampled_frames st = int (length (motion_timestamps st))"
    using inv(2) by (simp_all add: trace_inv_def)
  have ne: "motion_timestamps st \<noteq> []" "motion_values st \<noteq> []" using st(3) cnt len by auto
  obtain zs where zs: "unique_peaks [] (peak_pairs (motion_timestamps st) (motion_values st))
      = hd (motion_timestamps st) # zs"
    using zero_motion_peaks[OF zero len ne(1)] by blast
  have stats: "np_mean (motion_array (motion_values st)) = 0"
    "np_std (motion_array (motion_values st)) = 0"
    "high_motion_threshold (motion_values st) = 0" "high_motion_ratio (motion_values st) = 0"
    using zero_motion_statistics[OF zero] by simp_all
  have r0: "py_round 0 4 = 0" using py_round_exact[of 0 4 0] by simp
  have "sampleStride r = ?stride" using st(2,3) by (simp add: build_payload_def Let_def)
  moreover have "highMotionShortClipSignal r = 0"
    using st(2,3) by (simp add: build_payload_def Let_def stats clamp_def r0)
  moreover have "motionPeaks r = py_round (hd (motion_timestamps st)) 2 # map (\<lambda>value. py_round value 2) zs"
    using st(2,3) by (simp add: build_payload_def Let_def zs)
  ultimately show ?thesis using st(2) ne(2) zero stats by auto
qed

















lemma leading_zero_step:
  assumes "trace_inv cap fps st" and "motion_values st = [] \<or> hd (motion_values st) = 0"
  shows "motion_values (loop_body cap fps sample_stride st) = []
         \<or> hd (motion_values (loop_body cap fps sample_stride st)) = 0"
proof (cases "read_at cap (frame_index st)")
  case None
  then show ?thesis using assms(2) by (simp add: loop_body_None)
next
  case (Some fr)
  show ?thesis
  proof (cases "motion_values st = []")
    case True
    from assms(1) have l: "length (motion_values st) = length (motion_timestamps st)"
      and m: "motion_timestamps st = map (\<lambda>i. real_of_int i / max 1 fps) (decoded cap (seeks st))"
      and c: "sampled_frames st = int (length (decoded cap (seeks st)))"
      and p: "(prev_gray st = None) = (sampled_frames st = 0)"
      unfolding trace_inv_def by blast+
    have "length (decoded cap (seeks st)) = 0" using l m True by (metis length_map list.size(3))
    then have "prev_gray st = None" using c p by simp
    then show ?thesis using Some True by (simp add: loop_body_Some)
  next
    case False
    then show ?thesis using Some assms(2) by (simp add: loop_body_Some)
  qed
qed

lemma sampled_run_starts_with_zero:
  assumes "1 \<le> sample_stride"
    and "scan_loop cap total_frames fps sample_stride initial_state = Some st"
    and "0 < sampled_frames st"
  shows "\<exists>tail. motion_values st = 0 # tail \<and> sampled_frames st = 1 + int (length tail)"
proof -
  let ?P = "\<lambda>s. trace_inv cap fps s \<and> (motion_values s = [] \<or> hd (motion_values s) = 0)"
  have "?P initial_state" by (simp add: trace_inv_initial) (simp add: initial_state_def)
  moreover have "?P (loop_body cap fps sample_stride s)" if "?P s" for s
    using that by (simp add: trace_inv_step leading_zero_step)
  ultimately obtain st' where "scan_loop cap total_frames fps sample_stride initial_state = Some st'"
    "?P st'"
    using scan_loop_rule[OF assms(1), of ?P initial_state total_frames cap fps] by blast
  then have inv: "trace_inv cap fps st" "motion_values st = [] \<or> hd (motion_values st) = 0"
    using assms(2) by simp_all
  have len: "sampled_frames st = int (length (motion_values st))"
    using inv(1) by (simp add: trace_inv_def)
  then have "motion_values st \<noteq> []" using assms(3) by auto
  then have "motion_values st = 0 # tl (motion_values st)" using inv(2) by (cases "motion_values st") auto
  moreover from this have "sampled_frames st = 1 + int (length (tl (motion_values st)))"
    using len by (metis length_Cons of_nat_Suc add.commute)
  ultimately show ?thesis by blast
qed

lemma high_motion_signal_explicit:
  assumes "0 < sampled_frames st" and "motion_values st = vs" and "vs \<noteq> []"
  shows "highMotionShortClipSignal (build_payload k st)
         = (let n = real (length vs);
                m = sum_list vs / n;
                sd = sqrt (sum_list (map (\<lambda>x. (x - m) ^ 2) vs) / n);
                threshold = m + 0.75 * sd
            in py_round (clamp (real (length (filter (\<lambda>v. threshold < v) vs)) / n * 1.35) 0.0 1.0) 4)"
  using assms
  by (simp add: build_payload_def Let_def high_motion_ratio_def high_motion_threshold_def
      motion_array_def np_mean_def np_std_def)

section \<open>The claims\<close>

text \<open>
  C1. Whatever the ratio and the environment, the run ends with exit status 0, and each of
  portraitSignal, landscapeSignal, centeredFaceVerticalSignal, horizontalMotionSignal and
  highMotionShortClipSignal of the printed payload lies in the closed interval from 0 to 1,
  on the fallback paths as on the normal path.
\<close>

theorem signals_in_unit_interval:
  "\<exists>r. main ratio env = Some (0, r)
     \<and> 0 \<le> portraitSignal r \<and> portraitSignal r \<le> 1
     \<and> 0 \<le> landscapeSignal r \<and> landscapeSignal r \<le> 1
     \<and> 0 \<le> centeredFaceVerticalSignal r \<and> centeredFaceVerticalSignal r \<le> 1
     \<and> 0 \<le> horizontalMotionSignal r \<and> horizontalMotionSignal r \<le> 1
     \<and> 0 \<le> highMotionShortClipSignal r \<and> highMotionShortClipSignal r \<le> 1"
  using main_cases[of ratio env] fallback_unit build_payload_unit by metis









text \<open>
  C9, as the code has it. A ratio of exactly zero becomes the default 0.1; every other
  ratio up to 0.01 is clamped to 0.01, a tenth of that. The sample count, and the number of
  frame indices the loop visits, is ten times larger for ratio 0 when the frame count is a
  positive multiple of 100.
\<close>

theorem zero_ratio_takes_default:
  assumes "x \<noteq> 0" and "x \<le> 0.01" and "0 < total_frames" and "100 dvd total_frames"
  shows "effective_sample_ratio 0 = 0.1
    \<and> effective_sample_ratio x = 0.01
    \<and> effective_sample_ratio 0 = 10 * effective_sample_ratio x
    \<and> sample_count_of total_frames (effective_sample_ratio 0)
        = 10 * sample_count_of total_frames (effective_sample_ratio x)
    \<and> (\<exists>s0 s1.
          scan_loop cap total_frames fps
            (sample_stride_of total_frames (sample_count_of total_frames (effective_sample_ratio 0)))
            initial_state = Some s0
        \<and> scan_loop cap total_frames fps
            (sample_stride_of total_frames (sample_count_of total_frames (effective_sample_ratio x)))
            initial_state = Some s1
        \<and> length (seeks s0) = 10 * length (seeks s1))"
proof -
  from assms(4) obtain k where k: "total_frames = 100 * k" by (auto simp: dvd_def)
  then have kpos: "1 \<le> k" using assms(3) by simp
  define q where "q = nat k"
  have kq: "k = int q" and qpos: "1 \<le> q" using kpos by (simp_all add: q_def)
  have e0: "effective_sample_ratio 0 = 1 / 10" by (rule effective_sample_ratio_zero)
  have ex: "effective_sample_ratio x = 1 / 100"
    using assms(1,2) by (simp add: effective_sample_ratio_small)
  have "real_of_int total_frames * (1 / 10) = real_of_int (10 * k)" using k by simp
  then have "\<lfloor>real_of_int total_frames * (1 / 10)\<rfloor> = 10 * k" by (metis floor_of_int)
  then have c0: "sample_count_of total_frames (1 / 10) = 10 * k"
    using kpos assms(3) by (simp add: sample_count_of_def py_int_def)
  have "real_of_int total_frames * (1 / 100) = real_of_int k" using k by simp
  then have "\<lfloor>real_of_int total_frames * (1 / 100)\<rfloor> = k" by (metis floor_of_int)
  then have cx: "sample_count_of total_frames (1 / 100) = k"
    using kpos assms(3) by (simp add: sample_count_of_def py_int_def)
  have s0: "sample_stride_of total_frames (10 * k) = 10"
    using kpos k by (simp add: sample_stride_of_def)
  have sx: "sample_stride_of total_frames k = 100"
    using kpos k by (simp add: sample_stride_of_def)
  obtain st0 n0 where r0: "scan_loop cap total_frames fps 10 initial_state = Some st0"
    "seeks st0 = map (\<lambda>j. int j * 10) [0..<n0]" "\<forall>j. (j < n0) = (int j * 10 < total_frames)"
    using scan_loop_final[of 10 cap total_frames fps] by auto
  obtain st1 n1 where r1: "scan_loop cap total_frames fps 100 initial_state = Some st1"
    "seeks st1 = map (\<lambda>j. int j * 100) [0..<n1]" "\<forall>j. (j < n1) = (int j * 100 < total_frames)"
    using scan_loop_final[of 100 cap total_frames fps] by auto
  have "total_frames = int (10 * q) * 10" using k kq by simp
  then have n0: "n0 = 10 * q" using r0(3) visit_count_exact[of 10 n0 "10 * q"] by simp
  have "total_frames = int q * 100" using k kq by simp
  then have n1: "n1 = q" using r1(3) visit_count_exact[of 100 n1 q] by simp
  have len: "length (seeks st0) = 10 * length (seeks st1)" using r0(2) r1(2) n0 n1 by simp
  have "sample_count_of total_frames (effective_sample_ratio 0)
        = 10 * sample_count_of total_frames (effective_sample_ratio x)"
    by (simp add: e0 ex c0 cx)
  moreover have "\<exists>s0 s1.
          scan_loop cap total_frames fps
            (sample_stride_of total_frames (sample_count_of total_frames (effective_sample_ratio 0)))
            initial_state = Some s0
        \<and> scan_loop cap total_frames fps
            (sample_stride_of total_frames (sample_count_of total_frames (effective_sample_ratio x)))
            initial_state = Some s1
        \<and> length (seeks s0) = 10 * length (seeks s1)"
    using r0(1) r1(1) len by (simp add: e0 ex c0 cx s0 sx)
  ultimately show ?thesis by (simp add: e0 ex)
qed

theorem zero_ratio_takes_default_witness:
  "(0.005::real) \<noteq> 0 \<and> (0.005::real) \<le> 0.01 \<and> (0::int) < 100 \<and> (100::int) dvd 100
   \<and> effective_sample_ratio 0 = 0.1 \<and> effective_sample_ratio 0.005 = 0.01
   \<and> sample_count_of 100 (effective_sample_ratio 0)
        = 10 * sample_count_of 100 (effective_sample_ratio 0.005)"
proof -
  have h: "(0.005::real) \<noteq> 0" "(0.005::real) \<le> 0.01" "(0::int) < 100" "(100::int) dvd 100"
    by simp_all
  from zero_ratio_takes_default[OF h, of "uniform_capture 100 30 (flat_frame 7)" 30] h
  show ?thesis by blast
qed


text \<open>
  C9 as stated fails for 50 frames: ratio 0 samples 5 frames (stride 10), ratio 0.005
  samples 1 frame (stride 50); five times as many, not ten.
\<close>

theorem zero_ratio_not_tenfold:
  "map_option (\<lambda>r. sampledFrames (snd r)) (main 0 (ready (uniform_capture 50 30 (flat_frame 7)))) = Some 5
   \<and> map_option (\<lambda>r. sampledFrames (snd r)) (main 0.005 (ready (uniform_capture 50 30 (flat_frame 7)))) = Some 1"
proof -
  have s0: "sample_stride_of 50 (sample_count_of 50 (effective_sample_ratio 0)) = 10"
    by (simp add: effective_sample_ratio_zero sample_count_of_def sample_stride_of_def py_int_def)
  have sx: "sample_stride_of 50 (sample_count_of 50 (effective_sample_ratio 0.005)) = 50"
    by (simp add: effective_sample_ratio_small sample_count_of_def sample_stride_of_def py_int_def)
  obtain r0 where r0: "main 0 (ready (uniform_capture 50 30 (flat_frame 7))) = Some (0, r0)"
    using main_returns by blast
  obtain r1 where r1: "main 0.005 (ready (uniform_capture 50 30 (flat_frame 7))) = Some (0, r1)"
    using main_returns by blast
  have "sampledFrames r0 = int (Suc 4)"
    using uniform_main_sampledFrames[of 50 0 10 4 "flat_frame 7" r0] s0 r0 by simp
  moreover have "sampledFrames r1 = int (Suc 0)"
    using uniform_main_sampledFrames[of 50 "0.005" 50 0 "flat_frame 7" r1] sx r1 by simp
  ultimately show ?thesis using r0 r1 by simp
qed

text \<open>
  C6, as the code has it. The timestamp appended for a sampled frame is the frame index
  divided by \<open>max(1.0, fps)\<close>, where \<open>fps\<close> is the reported rate, or 30 when the capture
  reports 0. It equals frame index over reported rate exactly when that rate is at least 1.
\<close>

theorem timestamp_uses_guarded_fps:
  assumes "read_at cap (frame_index st) = Some fr"
  shows "motion_timestamps (loop_body cap (py_or (CAP_PROP_FPS cap) 30.0) sample_stride st)
         = motion_timestamps st
           @ [real_of_int (frame_index st) / max 1.0 (py_or (CAP_PROP_FPS cap) 30.0)]
    \<and> (1 \<le> CAP_PROP_FPS cap \<longrightarrow>
         motion_timestamps (loop_body cap (py_or (CAP_PROP_FPS cap) 30.0) sample_stride st)
         = motion_timestamps st @ [real_of_int (frame_index st) / CAP_PROP_FPS cap])"
  using assms by (auto simp: loop_body_Some py_or_def max_def)

theorem timestamp_uses_guarded_fps_witness:
  "read_at still_capture (frame_index (initial_state\<lparr>frame_index := 2\<rparr>)) = Some (flat_frame 7)
   \<and> 1 \<le> CAP_PROP_FPS still_capture
   \<and> motion_timestamps (loop_body still_capture (py_or (CAP_PROP_FPS still_capture) 30.0) 2
        (initial_state\<lparr>frame_index := 2\<rparr>)) = [2 / 30]"
proof -
  have h: "read_at still_capture (frame_index (initial_state\<lparr>frame_index := 2\<rparr>)) = Some (flat_frame 7)"
    by (simp add: still_capture_def uniform_capture_def)
  have f: "CAP_PROP_FPS still_capture = 30" by (simp add: still_capture_def uniform_capture_def)
  from timestamp_uses_guarded_fps[OF h, where sample_stride=2] h f show ?thesis
    by (simp add: initial_state_def py_or_def)
qed

text \<open>
  C6 as stated fails for a rate between 0 and 1. With 4 frames at 0.5 frames per second and
  ratio 0.5 the loop samples indices 0 and 2; the second timestamp is 2, not 2 / 0.5 = 4,
  and the printed motion peak is 2.
\<close>

theorem timestamp_slow_rate_counterexample:
  "CAP_PROP_FPS flash_capture = 1 / 2
   \<and> map_option motion_timestamps
        (scan_loop flash_capture 4 (py_or (CAP_PROP_FPS flash_capture) 30.0) 2 initial_state)
      = Some [0, 2]
   \<and> map (\<lambda>i. real_of_int i / CAP_PROP_FPS flash_capture) [0, 2] = [0, 4]
   \<and> map_option (\<lambda>r. motionPeaks (snd r)) (main (1 / 2) (ready flash_capture)) = Some [2]"
proof -
  have f: "CAP_PROP_FPS flash_capture = 1 / 2" by (simp add: flash_capture_def)
  show ?thesis by (simp add: f py_or_def flash_run flash_main)
qed

text \<open>
  C8. When the read at the current index fails, the iteration only records the seek and
  advances the frame index by the stride: the counter, the running sums, both motion
  sequences and the retained grayscale buffer are unchanged. The loop goes on from the
  advanced index, and with a stride of at least 1 it ends.
\<close>

theorem decode_failure_skips_index:
  assumes "read_at cap (frame_index st) = None"
  shows "loop_body cap fps sample_stride st
         = st\<lparr>seeks := seeks st @ [frame_index st], frame_index := frame_index st + sample_stride\<rparr>
    \<and> frame_index (loop_body cap fps sample_stride st) = frame_index st + sample_stride
    \<and> sampled_frames (loop_body cap fps sample_stride st) = sampled_frames st
    \<and> motion_values (loop_body cap fps sample_stride st) = motion_values st
    \<and> motion_timestamps (loop_body cap fps sample_stride st) = motion_timestamps st
    \<and> portrait_score_total (loop_body cap fps sample_stride st) = portrait_score_total st
    \<and> landscape_score_total (loop_body cap fps sample_stride st) = landscape_score_total st
    \<and> centered_face_total (loop_body cap fps sample_stride st) = centered_face_total st
    \<and> horizontal_motion_total (loop_body cap fps sample_stride st) = horizontal_motion_total st
    \<and> prev_gray (loop_body cap fps sample_stride st) = prev_gray st
    \<and> (frame_index st < total_frames \<longrightarrow>
          scan_loop cap total_frames fps sample_stride st
          = scan_loop cap total_frames fps sample_stride
              (st\<lparr>seeks := seeks st @ [frame_index st],
                   frame_index := frame_index st + sample_stride\<rparr>))
    \<and> (1 \<le> sample_stride \<longrightarrow>
          (\<exists>st'. scan_loop cap total_frames fps sample_stride st = Some st'))"
  using assms scan_loop_step[of st total_frames cap fps sample_stride]
    scan_loop_returns[of sample_stride cap total_frames fps st]
  by (simp add: loop_body_None)

theorem decode_failure_skips_index_witness:
  "read_at gap_capture (frame_index initial_state) = None
   \<and> frame_index initial_state < 4 \<and> (1::int) \<le> 2
   \<and> loop_body gap_capture 30 2 initial_state = initial_state\<lparr>seeks := [0], frame_index := 2\<rparr>
   \<and> scan_loop gap_capture 4 30 2 initial_state
      = scan_loop gap_capture 4 30 2 (initial_state\<lparr>seeks := [0], frame_index := 2\<rparr>)
   \<and> map_option (\<lambda>r. sampledFrames (snd r)) (main (1 / 2) (ready gap_capture)) = Some 1"
proof -
  have h: "read_at gap_capture (frame_index initial_state) = None"
    by (simp add: gap_capture_def initial_state_def)
  from decode_failure_skips_index[OF h, where fps=30 and sample_stride=2 and total_frames=4] h
  show ?thesis
    by (simp add: initial_state_def gap_main)
qed

text \<open>
  C10. After any number of iterations the two motion sequences have the same length, equal
  to the sampled-frame counter, and the timestamps increase strictly, so no timestamp
  repeats. The same holds for the state the loop ends in, and the timestamps of the peak
  candidates are pairwise distinct.
\<close>

theorem motion_sequences_stay_parallel:
  assumes "1 \<le> sample_stride"
  shows "(let st = (loop_body cap fps sample_stride ^^ n) initial_state
          in length (motion_values st) = length (motion_timestamps st)
             \<and> int (length (motion_timestamps st)) = sampled_frames st
             \<and> sorted_wrt (<) (motion_timestamps st)
             \<and> distinct (motion_timestamps st))
    \<and> (\<exists>st'. scan_loop cap total_frames fps sample_stride initial_state = Some st'
          \<and> length (motion_values st') = length (motion_timestamps st')
          \<and> int (length (motion_timestamps st')) = sampled_frames st'
          \<and> sorted_wrt (<) (motion_timestamps st')
          \<and> distinct (motion_timestamps st')
          \<and> distinct (map fst (peak_pairs (motion_timestamps st') (motion_values st'))))"
proof -
  let ?st = "(loop_body cap fps sample_stride ^^ n) initial_state"
  have inv: "seeks_inv sample_stride ?st" "trace_inv cap fps ?st"
    using invariants_after[where sample_stride=sample_stride and cap=cap and fps=fps and n=n] by simp_all
  from inv(1) obtain m where m: "seeks ?st = map (\<lambda>k. int k * sample_stride) [0..<m]"
    unfolding seeks_inv_def by blast
  have s1: "sorted_wrt (<) (motion_timestamps ?st)"
    using timestamps_increase[OF assms m inv(2)] .
  then have d1: "distinct (motion_timestamps ?st)" by (simp add: strict_sorted_iff)
  have l1: "length (motion_values ?st) = length (motion_timestamps ?st)"
    "int (length (motion_timestamps ?st)) = sampled_frames ?st"
    using inv(2) by (simp_all add: trace_inv_def)
  obtain st' k where run: "scan_loop cap total_frames fps sample_stride initial_state = Some st'"
    "seeks st' = map (\<lambda>k. int k * sample_stride) [0..<k]" "trace_inv cap fps st'"
    using scan_loop_final[OF assms, of cap total_frames fps] by blast
  have s2: "sorted_wrt (<) (motion_timestamps st')"
    using timestamps_increase[OF assms run(2,3)] .
  then have d2: "distinct (motion_timestamps st')" by (simp add: strict_sorted_iff)
  have l2: "length (motion_values st') = length (motion_timestamps st')"
    "int (length (motion_timestamps st')) = sampled_frames st'"
    using run(3) by (simp_all add: trace_inv_def)
  have "distinct (map fst (peak_pairs (motion_timestamps st') (motion_values st')))"
    using peak_pairs_distinct[OF d2 l2(1)] .
  with run(1) s2 d2 l2 have "\<exists>st'. scan_loop cap total_frames fps sample_stride initial_state = Some st'
          \<and> length (motion_values st') = length (motion_timestamps st')
          \<and> int (length (motion_timestamps st')) = sampled_frames st'
          \<and> sorted_wrt (<) (motion_timestamps st')
          \<and> distinct (motion_timestamps st')
          \<and> distinct (map fst (peak_pairs (motion_timestamps st') (motion_values st')))"
    by blast
  then show ?thesis using s1 d1 l1 by (simp add: Let_def)
qed

theorem motion_sequences_stay_parallel_witness:
  "(1::int) \<le> 2
   \<and> (\<exists>st'. scan_loop flash_capture 4 (1 / 2) 2 initial_state = Some st'
          \<and> length (motion_values st') = length (motion_timestamps st')
          \<and> int (length (motion_timestamps st')) = sampled_frames st'
          \<and> sorted_wrt (<) (motion_timestamps st')
          \<and> motion_timestamps st' = [0, 2])"
proof -
  have h: "(1::int) \<le> 2" by simp
  from motion_sequences_stay_parallel[OF h, where cap=flash_capture and fps="1 / 2" and n=0
      and total_frames=4]
  show ?thesis by (auto simp: flash_run)
qed



text \<open>
  C4, as the code has it. When every decoded frame has the same grayscale buffer and at
  least one frame is sampled, all motion values are 0, so mean, standard deviation and
  threshold are 0, no value is above the threshold, the high-motion ratio and
  highMotionShortClipSignal are 0. Every value reaches the threshold, though (the candidate
  test is \<open>value >= threshold\<close>), so every sampled frame is a peak candidate and
  motionPeaks is not empty: its first entry is the rounded timestamp of the first sampled
  frame.
\<close>

theorem zero_motion_source:
  assumes "\<forall>i. read_at (VideoCapture env) i = None
               \<or> map_option gray (read_at (VideoCapture env) i) = Some g"
    and "main ratio env = Some (0, r)" and "0 < sampledFrames r"
  shows "\<exists>st. r = build_payload (sampleStride r) st
           \<and> list_all (\<lambda>v. v = 0) (motion_values st)
           \<and> np_mean (motion_array (motion_values st)) = 0
           \<and> np_std (motion_array (motion_values st)) = 0
           \<and> high_motion_threshold (motion_values st) = 0
           \<and> filter (\<lambda>v. high_motion_threshold (motion_values st) < v) (motion_values st) = []
           \<and> high_motion_ratio (motion_values st) = 0
           \<and> highMotionShortClipSignal r = 0
           \<and> motionPeaks r \<noteq> []
           \<and> hd (motionPeaks r) = py_round (hd (motion_timestamps st)) 2"
proof -
  obtain st where st: "r = build_payload (sampleStride r) st"
    "list_all (\<lambda>v. v = 0) (motion_values st)"
    "np_mean (motion_array (motion_values st)) = 0"
    "np_std (motion_array (motion_values st)) = 0"
    "high_motion_threshold (motion_values st) = 0"
    "high_motion_ratio (motion_values st) = 0"
    "highMotionShortClipSignal r = 0" "motionPeaks r \<noteq> []"
    "hd (motionPeaks r) = py_round (hd (motion_timestamps st)) 2"
    using zero_motion_payload[OF assms] by blast
  have "filter (\<lambda>v. high_motion_threshold (motion_values st) < v) (motion_values st) = []"
    using st(2) by (auto simp: st(5) filter_empty_conv list_all_iff)
  then show ?thesis using st by blast
qed

theorem zero_motion_source_witness:
  "(\<forall>i. read_at (VideoCapture (ready still_capture)) i = None
        \<or> map_option gray (read_at (VideoCapture (ready still_capture)) i) = Some [[7, 7], [7, 7]])
   \<and> (\<exists>r. main (1 / 2) (ready still_capture) = Some (0, r)
         \<and> 0 < sampledFrames r
         \<and> highMotionShortClipSignal r = 0
         \<and> motionPeaks r \<noteq> [])"
proof -
  let ?r = "\<lparr> sampledFrames = 2, sampleStride = 2, portraitSignal = 38 / 100,
              landscapeSignal = 13 / 100, centeredFaceVerticalSignal = 0,
              horizontalMotionSignal = 0, highMotionShortClipSignal = 0,
              motionPeaks = [0] \<rparr>"
  have h1: "\<forall>i. read_at (VideoCapture (ready still_capture)) i = None
        \<or> map_option gray (read_at (VideoCapture (ready still_capture)) i) = Some [[7, 7], [7, 7]]"
    by (simp add: ready_def still_capture_def uniform_capture_def flat_frame_def)
  have h2: "main (1 / 2) (ready still_capture) = Some (0, ?r)" by (rule still_main)
  have h3: "0 < sampledFrames ?r" by simp
  from zero_motion_source[OF h1 h2 h3] h1 h2 show ?thesis by auto
qed

text \<open>
  C4 as stated fails in its last part. A still source of 4 frames at 30 frames per second,
  ratio 0.5: both sampled frames have motion value 0, the threshold is 0,
  highMotionShortClipSignal is 0, and motionPeaks is \<open>[0.0]\<close>, not empty.
\<close>

theorem zero_motion_has_a_peak:
  "map_option motion_values (scan_loop still_capture 4 30 2 initial_state) = Some [0, 0]
   \<and> high_motion_threshold [0, 0] = 0
   \<and> map_option (\<lambda>r. highMotionShortClipSignal (snd r)) (main (1 / 2) (ready still_capture)) = Some 0
   \<and> map_option (\<lambda>r. motionPeaks (snd r)) (main (1 / 2) (ready still_capture)) = Some [0]"
  by (simp add: still_run still_threshold still_main)




text \<open>
  C7. An iteration that decodes a frame while no grayscale buffer is retained appends the
  motion value 0, leaves the horizontal-motion total as it is and retains the frame's
  grayscale buffer. No buffer is retained exactly as long as no frame has been sampled, so
  that iteration is the first sampled frame. The payload divides the horizontal-motion
  total by \<open>max(1, sampled_frames - 1)\<close>. In every run that samples a frame the motion
  values of the final state are a leading 0 followed by one value for each later sampled
  frame, and highMotionShortClipSignal is computed from all of them: the mean and the
  standard deviation divide by the number of sampled frames, the leading 0 counted, and so
  does the share of values above the threshold.
\<close>

theorem first_sampled_frame_has_no_motion:
  assumes "prev_gray st = None" and "read_at cap (frame_index st) = Some fr"
  shows "motion_values (loop_body cap fps sample_stride st) = motion_values st @ [0]
    \<and> horizontal_motion_total (loop_body cap fps sample_stride st) = horizontal_motion_total st
    \<and> prev_gray (loop_body cap fps sample_stride st) = Some (gray fr)
    \<and> sampled_frames (loop_body cap fps sample_stride st) = sampled_frames st + 1
    \<and> (let s = (loop_body cap fps sample_stride ^^ n) initial_state
        in (prev_gray s = None) = (sampled_frames s = 0))
    \<and> (0 < sampled_frames s' \<longrightarrow>
          horizontalMotionSignal (build_payload k s')
          = py_round (clamp (horizontal_motion_total s' / real_of_int (max 1 (sampled_frames s' - 1)))
                        0.0 1.0) 4
          \<and> highMotionShortClipSignal (build_payload k s')
          = py_round (clamp (high_motion_ratio (motion_values s') * 1.35) 0.0 1.0) 4)
    \<and> (main ratio env = Some (0, r) \<and> 0 < sampledFrames r \<longrightarrow>
          (\<exists>s tail.
              scan_loop (VideoCapture env) (py_int (py_or (CAP_PROP_FRAME_COUNT (VideoCapture env)) 0))
                (py_or (CAP_PROP_FPS (VideoCapture env)) 30.0) (sampleStride r) initial_state = Some s
            \<and> motion_values s = 0 # tail
            \<and> sampledFrames r = 1 + int (length tail)
            \<and> horizontalMotionSignal r
                = py_round (clamp (horizontal_motion_total s
                                    / real_of_int (max 1 (sampledFrames r - 1))) 0.0 1.0) 4
            \<and> highMotionShortClipSignal r
                = (let vs = 0 # tail;
                       n = real (length vs);
                       m = sum_list vs / n;
                       sd = sqrt (sum_list (map (\<lambda>x. (x - m) ^ 2) vs) / n);
                       threshold = m + 0.75 * sd
                   in py_round (clamp (real (length (filter (\<lambda>v. threshold < v) vs)) / n * 1.35)
                                 0.0 1.0) 4)))"
proof -
  have "trace_inv cap fps ((loop_body cap fps sample_stride ^^ n) initial_state)"
    using invariants_after[where sample_stride=sample_stride and cap=cap and fps=fps and n=n]
    by simp
  then have a: "(let s = (loop_body cap fps sample_stride ^^ n) initial_state
        in (prev_gray s = None) = (sampled_frames s = 0))"
    by (simp add: trace_inv_def Let_def)
  have b: "motion_values (loop_body cap fps sample_stride st) = motion_values st @ [0]
    \<and> horizontal_motion_total (loop_body cap fps sample_stride st) = horizontal_motion_total st
    \<and> prev_gray (loop_body cap fps sample_stride st) = Some (gray fr)
    \<and> sampled_frames (loop_body cap fps sample_stride st) = sampled_frames st + 1"
    using assms by (simp add: loop_body_Some)
  have c: "0 < sampled_frames s' \<longrightarrow>
          horizontalMotionSignal (build_payload k s')
          = py_round (clamp (horizontal_motion_total s' / real_of_int (max 1 (sampled_frames s' - 1)))
                        0.0 1.0) 4
          \<and> highMotionShortClipSignal (build_payload k s')
          = py_round (clamp (high_motion_ratio (motion_values s') * 1.35) 0.0 1.0) 4"
    by (simp add: build_payload_def Let_def)
  have d: "\<exists>s tail.
              scan_loop (VideoCapture env) (py_int (py_or (CAP_PROP_FRAME_COUNT (VideoCapture env)) 0))
                (py_or (CAP_PROP_FPS (VideoCapture env)) 30.0) (sampleStride r) initial_state = Some s
            \<and> motion_values s = 0 # tail
            \<and> sampledFrames r = 1 + int (length tail)
            \<and> horizontalMotionSignal r
                = py_round (clamp (horizontal_motion_total s
                                    / real_of_int (max 1 (sampledFrames r - 1))) 0.0 1.0) 4
            \<and> highMotionShortClipSignal r
                = (let vs = 0 # tail;
                       n = real (length vs);
                       m = sum_list vs / n;
                       sd = sqrt (sum_list (map (\<lambda>x. (x - m) ^ 2) vs) / n);
                       threshold = m + 0.75 * sd
                   in py_round (clamp (real (length (filter (\<lambda>v. threshold < v) vs)) / n * 1.35)
                                 0.0 1.0) 4)"
    if m: "main ratio env = Some (0, r)" and pos: "0 < sampledFrames r"
  proof -
    let ?cap = "VideoCapture env"
    let ?total = "py_int (py_or (CAP_PROP_FRAME_COUNT ?cap) 0)"
    let ?fps = "py_or (CAP_PROP_FPS ?cap) 30.0"
    let ?k = "sample_stride_of ?total (sample_count_of ?total (effective_sample_ratio ratio))"
    obtain s where s: "scan_loop ?cap ?total ?fps ?k initial_state = Some s"
      "r = build_payload ?k s" "0 < sampled_frames s"
      using main_sampled[OF m pos] by blast
    have k: "sampleStride r = ?k" using s(2,3) by (simp add: build_payload_def Let_def)
    have n: "sampledFrames r = sampled_frames s" using s(2,3) by (simp add: build_payload_def Let_def)
    obtain tail where tail: "motion_values s = 0 # tail" "sampled_frames s = 1 + int (length tail)"
      using sampled_run_starts_with_zero[OF sample_stride_of_pos s(1) s(3)] by blast
    have h: "horizontalMotionSignal r
                = py_round (clamp (horizontal_motion_total s
                                    / real_of_int (max 1 (sampledFrames r - 1))) 0.0 1.0) 4"
      using s(2,3) by (simp add: build_payload_def Let_def)
    have "highMotionShortClipSignal r
                = (let vs = 0 # tail;
                       n = real (length vs);
                       m = sum_list vs / n;
                       sd = sqrt (sum_list (map (\<lambda>x. (x - m) ^ 2) vs) / n);
                       threshold = m + 0.75 * sd
                   in py_round (clamp (real (length (filter (\<lambda>v. threshold < v) vs)) / n * 1.35)
                                 0.0 1.0) 4)"
      unfolding s(2) using high_motion_signal_explicit[OF s(3) tail(1)] by (simp add: Let_def)
    then show ?thesis using s(1) tail h unfolding k n by blast
  qed
  show ?thesis using a b c d by blast
qed

theorem first_sampled_frame_has_no_motion_witness:
  "prev_gray initial_state = None
   \<and> read_at flash_capture (frame_index initial_state) = Some (flat_frame 0)
   \<and> motion_values (loop_body flash_capture (1 / 2) 2 initial_state) = [0]
   \<and> prev_gray (loop_body flash_capture (1 / 2) 2 initial_state) = Some [[0, 0], [0, 0]]
   \<and> map_option (\<lambda>r. sampledFrames (snd r)) (main (1 / 2) (ready flash_capture)) = Some 2
   \<and> map_option motion_values (scan_loop flash_capture 4 (1 / 2) 2 initial_state) = Some [0, 1]
   \<and> sum_list [0, 1 :: real] / real (length [0, 1 :: real]) = 1 / 2
   \<and> high_motion_threshold [0, 1] = 7 / 8
   \<and> high_motion_threshold [1] = 1
   \<and> map_option (\<lambda>r. highMotionShortClipSignal (snd r)) (main (1 / 2) (ready flash_capture))
       = Some (py_round (clamp (real (length (filter (\<lambda>v. 7 / 8 < v) [0, 1 :: real])) / 2 * 1.35) 0 1) 4)
   \<and> map_option (\<lambda>r. highMotionShortClipSignal (snd r)) (main (1 / 2) (ready flash_capture))
       = Some (27 / 40)
   \<and> map_option (\<lambda>r. horizontalMotionSignal (snd r)) (main (1 / 2) (ready flash_capture)) = Some 1"
proof -
  let ?r = "\<lparr> sampledFrames = 2, sampleStride = 2, portraitSignal = 38 / 100,
              landscapeSignal = 13 / 100, centeredFaceVerticalSignal = 0,
              horizontalMotionSignal = 1, highMotionShortClipSignal = 675 / 1000,
              motionPeaks = [2] \<rparr>"
  have h: "prev_gray initial_state = None"
    "read_at flash_capture (frame_index initial_state) = Some (flat_frame 0)"
    by (simp_all add: initial_state_def flash_capture_def)
  have m: "main (1 / 2) (ready flash_capture) = Some (0, ?r)" by (rule flash_main)
  have t1: "high_motion_threshold [1] = 1"
    by (simp add: high_motion_threshold_def motion_array_def np_mean_def np_std_def)
  have pr: "py_round (27 / 40) 4 = 27 / 40" using py_round_exact[of "27 / 40" 4 6750] by simp
  have p: "0 < sampledFrames ?r" by simp
  note T = first_sampled_frame_has_no_motion[OF h, where fps="1 / 2" and sample_stride=2
      and ratio="1 / 2" and env="ready flash_capture" and r="?r"]
  note L = T[THEN conjunct2, THEN conjunct2, THEN conjunct2, THEN conjunct2, THEN conjunct2,
      THEN conjunct2, THEN mp, OF conjI[OF m p]]
  then obtain s tail where s:
    "scan_loop (VideoCapture (ready flash_capture))
       (py_int (py_or (CAP_PROP_FRAME_COUNT (VideoCapture (ready flash_capture))) 0))
       (py_or (CAP_PROP_FPS (VideoCapture (ready flash_capture))) 30.0) (sampleStride ?r)
       initial_state = Some s"
    "motion_values s = 0 # tail"
    by blast
  have s1: "scan_loop flash_capture 4 (1 / 2) 2 initial_state = Some s"
    using s(1) by (simp add: ready_def flash_capture_def py_or_def py_int_def)
  from first_sampled_frame_has_no_motion[OF h, where fps="1 / 2" and sample_stride=2] h
  have f: "motion_values (loop_body flash_capture (1 / 2) 2 initial_state) = [0]"
    "prev_gray (loop_body flash_capture (1 / 2) 2 initial_state) = Some [[0, 0], [0, 0]]"
    by (simp_all add: flat_frame_def initial_state_def)
  have "motion_values s = [0, 1]" using s1 unfolding flash_run by auto
  then have "tail = [1]" using s(2) by simp
  then show ?thesis using f h by (simp add: m flash_run flash_threshold t1 pr clamp_def)
qed

end
